theory Spec2Isabelle
  imports Complex_Main
begin

section \<open>Numbers\<close>

text \<open>
  Every JavaScript number of \<^verbatim>\<open>game.js\<close> is an IEEE-754 binary64 value. Positions,
  velocities, health and the screen shake are modelled as rationals with exact
  arithmetic; counters that the code only sets to integer literals and steps by one
  (timers, cooldowns, combo, score, level) are modelled as integers.

  Two places decide a comparison by how an addition rounds, and their arithmetic is
  modelled with the rounding of binary64: the player's energy, whose regeneration adds
  the literal \<^verbatim>\<open>0.2\<close> (not a binary64 value) behind a strict guard, and the sums of
  \<^verbatim>\<open>Utils.rectIntersect\<close>, which are compared with coordinates. \<open>f64 q\<close> is the binary64
  value nearest to \<open>q\<close>, ties to even, with the exponent range unbounded (no overflow
  to infinity and no subnormal numbers, neither of which the game comes near).
\<close>

definition pow2 :: "int \<Rightarrow> rat" where
  "pow2 e = (if 0 \<le> e then 2 ^ nat e else 1 / 2 ^ nat (- e))"

text \<open>\<open>expo_up a\<close> is the exponent of \<open>a \<ge> 1\<close> and \<open>expo_down a\<close> that of \<open>0 < a < 1\<close>.\<close>

function expo_up :: "rat \<Rightarrow> int" where
  "expo_up a = (if a < 2 then 0 else 1 + expo_up (a / 2))"
  by pat_completeness auto
termination
proof (relation "measure (\<lambda>a. nat \<lfloor>a\<rfloor>)")
  show "wf (measure (\<lambda>a::rat. nat \<lfloor>a\<rfloor>))" by simp
next
  fix a :: rat
  assume "\<not> a < 2"
  then have a2: "2 \<le> a" by simp
  have "a / 2 + 1 \<le> a" using a2 by simp
  then have "\<lfloor>a / 2\<rfloor> + 1 \<le> \<lfloor>a\<rfloor>"
    by (metis add.commute floor_mono floor_add_int floor_one add.commute of_int_1)
  moreover have "2 \<le> \<lfloor>a\<rfloor>" using a2 by (simp add: le_floor_iff)
  ultimately show "(a / 2, a) \<in> measure (\<lambda>a. nat \<lfloor>a\<rfloor>)"
    by (simp add: zless_nat_conj)
qed

function expo_down :: "rat \<Rightarrow> int" where
  "expo_down a = (if a \<le> 0 \<or> 1 \<le> a then 0 else expo_down (2 * a) - 1)"
  by pat_completeness auto
termination
proof (relation "measure (\<lambda>a. nat \<lceil>1 / a\<rceil>)")
  show "wf (measure (\<lambda>a::rat. nat \<lceil>1 / a\<rceil>))" by simp
next
  fix a :: rat
  assume "\<not> (a \<le> 0 \<or> 1 \<le> a)"
  then have a0: "0 < a" and a1: "a < 1" by simp_all
  have t1: "1 < 1 / a" using a0 a1 by simp
  have half: "1 / (2 * a) = (1 / a) / 2" by simp
  have c2: "2 \<le> \<lceil>1 / a\<rceil>" using t1 by linarith
  have "\<lceil>(1 / a) / 2\<rceil> < \<lceil>1 / a\<rceil>"
  proof -
    have "(1 / a) / 2 \<le> of_int \<lceil>1 / a\<rceil> / 2" by (simp add: divide_right_mono)
    also have "\<dots> \<le> of_int (\<lceil>1 / a\<rceil> - 1)" using c2 by simp
    finally have "\<lceil>(1 / a) / 2\<rceil> \<le> \<lceil>1 / a\<rceil> - 1" by (rule ceiling_le)
    then show ?thesis by simp
  qed
  moreover have "0 < \<lceil>1 / a\<rceil>" using c2 by linarith
  ultimately show "(2 * a, a) \<in> measure (\<lambda>a. nat \<lceil>1 / a\<rceil>)"
    unfolding in_measure half by (simp only: zless_nat_conj simp_thms)
qed

declare expo_up.simps [simp del] expo_down.simps [simp del]

definition binade :: "rat \<Rightarrow> int" where
  "binade a = (if 1 \<le> a then expo_up a else expo_down a)"

definition round_half_even :: "rat \<Rightarrow> int" where
  "round_half_even m =
     (let f = \<lfloor>m\<rfloor>; r = m - of_int f
      in if r < 1 / 2 then f else if 1 / 2 < r then f + 1 else if even f then f else f + 1)"

definition f64 :: "rat \<Rightarrow> rat" where
  "f64 q = (if q = 0 then 0
            else let s = binade \<bar>q\<bar> - 52
                 in sgn q * of_int (round_half_even (\<bar>q\<bar> / pow2 s)) * pow2 s)"

text \<open>The rationals that are binary64 values.\<close>

definition is_f64 :: "rat \<Rightarrow> bool" where
  "is_f64 q = (f64 q = q)"

definition f64_add :: "rat \<Rightarrow> rat \<Rightarrow> rat" where
  "f64_add a b = f64 (a + b)"

definition f64_sub :: "rat \<Rightarrow> rat \<Rightarrow> rat" where
  "f64_sub a b = f64 (a - b)"

section \<open>Constants and utility functions\<close>

definition GRAVITY :: rat where "GRAVITY = 6 / 10"
definition FRICTION :: rat where "FRICTION = 8 / 10"
definition PLAYER_SPEED :: rat where "PLAYER_SPEED = 5"
definition JUMP_FORCE :: rat where "JUMP_FORCE = - 12"
definition DASH_SPEED :: rat where "DASH_SPEED = 15"
definition DASH_DURATION :: int where "DASH_DURATION = 10"
definition INVINCIBILITY_DURATION :: int where "INVINCIBILITY_DURATION = 30"
definition COMBO_TIMEOUT :: int where "COMBO_TIMEOUT = 60"
definition GROUND_Y :: rat where "GROUND_Y = 380"
definition LEVEL_LENGTH :: rat where "LEVEL_LENGTH = 3000"
definition SPAWN_RATE :: int where "SPAWN_RATE = 120"
definition MAX_COMBO :: int where "MAX_COMBO = 50"

definition clamp :: "rat \<Rightarrow> rat \<Rightarrow> rat \<Rightarrow> rat" where
  "clamp val lo hi = max lo (min hi val)"

definition lerp :: "rat \<Rightarrow> rat \<Rightarrow> rat \<Rightarrow> rat" where
  "lerp a b t = a + (b - a) * t"


section \<open>Data model\<close>

text \<open>
  One record per class of \<^verbatim>\<open>game.js\<close>, with the fields its constructor assigns. A
  subclass extends the record of its superclass. Field names are the source's; where
  two classes use one name the field is written qualified (\<open>Particle.x\<close>,
  \<open>Projectile.damage\<close>). The particle's \<^verbatim>\<open>size\<close> is \<open>psize\<close>.
\<close>

record Particle =
  x :: rat
  y :: rat
  vx :: rat
  vy :: rat
  color :: string
  life :: int
  maxLife :: int
  psize :: rat

text \<open>Any object with \<^verbatim>\<open>x, y, w, h\<close>: what \<^verbatim>\<open>Utils.rectIntersect\<close> reads.\<close>

record Rect =
  x :: rat
  y :: rat
  w :: rat
  h :: rat

text \<open>The object literal stored in \<^verbatim>\<open>Player.attackBox\<close>.\<close>

record Hitbox = Rect +
  damage :: rat
  knockback :: rat

record Portal = Rect +
  active :: bool
  pulse :: rat

record Projectile = Rect +
  vx :: rat
  vy :: rat
  damage :: rat
  owner :: string
  dead :: bool

text \<open>
  \<^verbatim>\<open>Entity\<close>. The fields \<^verbatim>\<open>health\<close>, \<^verbatim>\<open>maxHealth\<close> and \<^verbatim>\<open>state\<close> are assigned by the
  constructors of both subclasses and \<^verbatim>\<open>health\<close> is used by \<^verbatim>\<open>Entity.takeDamage\<close>, so
  they live in this record.
\<close>

record Entity = Rect +
  vx :: rat
  vy :: rat
  facing :: rat
  grounded :: bool
  dead :: bool
  invincible :: int
  animFrame :: int
  animTimer :: int
  health :: rat
  maxHealth :: rat
  state :: string

record Player = Entity +
  maxEnergy :: rat
  energy :: rat
  combo :: int
  comboTimer :: int
  punchCount :: int
  punchTimer :: int
  blocking :: bool
  dashing :: bool
  dashTimer :: int
  attackBox :: "Hitbox option"
  attackTimer :: int

record Zombie = Entity +
  type :: string
  speed :: rat
  damage :: rat
  color :: string
  attackCooldown :: int
  detectRange :: rat
  attackRange :: rat

record Boss = Zombie +
  phase :: int
  specialCooldown :: int

text \<open>An element of \<^verbatim>\<open>Game.enemies\<close>: an instance of \<^verbatim>\<open>Zombie\<close> or of \<^verbatim>\<open>Boss\<close>.\<close>

datatype enemy = AZombie Zombie | ABoss Boss

text \<open>What the simulation reads of \<^verbatim>\<open>InputHandler\<close>: the button table and the joystick axis.\<close>

record Input =
  buttons :: "string \<Rightarrow> bool"
  joystick_x :: rat

text \<open>
  \<^verbatim>\<open>Game\<close>, with the fields \<^verbatim>\<open>update()\<close> reads or writes (the canvas context, the game
  mode, the theme and \<^verbatim>\<open>flashEffect\<close> are not among them). The last six fields are the
  environment of a tick: the input handler, the
  canvas width, the value \<^verbatim>\<open>Date.now()\<close> returns, the names passed to
  \<^verbatim>\<open>audio.playSound\<close> so far (the cue sink), and the values \<^verbatim>\<open>Math.random()\<close> returns
  (\<open>random_seq\<close>, read at \<open>random_idx\<close>).
\<close>

record Game =
  state :: string
  player :: Player
  enemies :: "enemy list"
  projectiles :: "Projectile list"
  particles :: "Particle list"
  portal :: "Portal option"
  cameraX :: rat
  level :: int
  score :: int
  kills :: int
  maxCombo :: int
  startTime :: rat
  elapsedTime :: rat
  spawnTimer :: int
  enemiesToSpawn :: int
  enemiesSpawned :: int
  bossSpawned :: bool
  screenShake :: rat
  input :: Input
  canvas_width :: rat
  date_now :: rat
  cues :: "string list"
  random_seq :: "nat \<Rightarrow> rat"
  random_idx :: nat

section \<open>Utilities, audio cues, random numbers\<close>

text \<open>
  \<^verbatim>\<open>Utils.rectIntersect\<close> compares coordinates with the sums \<^verbatim>\<open>r.x + r.w\<close> and
  \<^verbatim>\<open>r.y + r.h\<close> as JavaScript computes them, rounded to binary64.
\<close>

definition rectIntersect :: "'a Rect_scheme \<Rightarrow> 'b Rect_scheme \<Rightarrow> bool" where
  "rectIntersect r1 r2 =
     (\<not> (x r2 > f64_add (x r1) (w r1) \<or> f64_add (x r2) (w r2) < x r1
         \<or> y r2 > f64_add (y r1) (h r1) \<or> f64_add (y r2) (h r2) < y r1))"

definition playSound :: "string \<Rightarrow> Game \<Rightarrow> Game" where
  "playSound name g = g\<lparr>cues := cues g @ [name]\<rparr>"

definition Math_random :: "Game \<Rightarrow> rat \<times> Game" where
  "Math_random g = (random_seq g (random_idx g), g\<lparr>random_idx := Suc (random_idx g)\<rparr>)"

definition isPressed :: "Input \<Rightarrow> string \<Rightarrow> bool" where
  "isPressed inp button = buttons inp button"

definition getJoystickX :: "Input \<Rightarrow> rat" where
  "getJoystickX inp = joystick_x inp"

section \<open>Particles, projectiles, portal\<close>

definition new_Particle :: "rat \<Rightarrow> rat \<Rightarrow> rat \<Rightarrow> rat \<Rightarrow> string \<Rightarrow> int \<Rightarrow> rat \<Rightarrow> Particle" where
  "new_Particle px py pvx pvy c l sz =
     \<lparr>Particle.x = px, Particle.y = py, Particle.vx = pvx, Particle.vy = pvy,
      Particle.color = c, life = l, maxLife = l, psize = sz\<rparr>"

definition Particle_update :: "Particle \<Rightarrow> Particle" where
  "Particle_update p =
     (let p1 = p\<lparr>Particle.x := Particle.x p + Particle.vx p\<rparr>;
          p2 = p1\<lparr>Particle.y := Particle.y p1 + Particle.vy p1\<rparr>;
          p3 = p2\<lparr>Particle.vy := Particle.vy p2 + 2 / 10\<rparr>
      in p3\<lparr>life := life p3 - 1\<rparr>)"

text \<open>
  The loops \<^verbatim>\<open>for (let i = 0; i < n; i++) game.particles.push(new Particle(...))\<close>: each
  round draws the two random numbers of the velocity, first the one of \<^verbatim>\<open>vx\<close>.
\<close>

fun pushParticles :: "nat \<Rightarrow> (rat \<Rightarrow> rat \<Rightarrow> Particle) \<Rightarrow> Game \<Rightarrow> Game" where
  "pushParticles 0 mk g = g"
| "pushParticles (Suc n) mk g =
     (let (r1, g1) = Math_random g;
          (r2, g2) = Math_random g1
      in pushParticles n mk (g2\<lparr>particles := particles g2 @ [mk r1 r2]\<rparr>))"

definition new_Projectile :: "rat \<Rightarrow> rat \<Rightarrow> rat \<Rightarrow> rat \<Rightarrow> rat \<Rightarrow> string \<Rightarrow> Projectile" where
  "new_Projectile px py pvx pvy dmg own =
     \<lparr>x = px, y = py, w = 10, h = 6, Projectile.vx = pvx, Projectile.vy = pvy,
      Projectile.damage = dmg, owner = own, Projectile.dead = False\<rparr>"

definition Projectile_update :: "Projectile \<Rightarrow> Projectile" where
  "Projectile_update p =
     (let p1 = p\<lparr>x := x p + Projectile.vx p\<rparr>;
          p2 = p1\<lparr>y := y p1 + Projectile.vy p1\<rparr>
      in if owner p2 = ''enemy'' then p2\<lparr>Projectile.vy := Projectile.vy p2 + 1 / 10\<rparr> else p2)"

definition new_Portal :: "rat \<Rightarrow> rat \<Rightarrow> Portal" where
  "new_Portal px py = \<lparr>x = px, y = py, w = 60, h = 80, active = False, pulse = 0\<rparr>"

definition Portal_update :: "Portal \<Rightarrow> Portal" where
  "Portal_update p = p\<lparr>pulse := pulse p + 1 / 10\<rparr>"

section \<open>Entity\<close>

definition getBounds :: "'a Entity_scheme \<Rightarrow> Rect" where
  "getBounds e = \<lparr>x = x e, y = y e, w = w e, h = h e\<rparr>"

definition updatePhysics :: "'a Entity_scheme \<Rightarrow> 'a Entity_scheme" where
  "updatePhysics e =
     (let e1 = e\<lparr>vy := vy e + GRAVITY\<rparr>;
          e2 = e1\<lparr>vx := vx e1 * FRICTION\<rparr>;
          e3 = e2\<lparr>x := x e2 + vx e2\<rparr>;
          e4 = e3\<lparr>y := y e3 + vy e3\<rparr>;
          e5 = (if y e4 + h e4 > GROUND_Y
                then e4\<lparr>y := GROUND_Y - h e4, vy := 0, grounded := True\<rparr>
                else e4\<lparr>grounded := False\<rparr>)
      in if invincible e5 > 0 then e5\<lparr>invincible := invincible e5 - 1\<rparr> else e5)"

text \<open>\<^verbatim>\<open>Entity.takeDamage\<close> returns its boolean result and the actor as it leaves it.\<close>

definition Entity_takeDamage :: "'a Entity_scheme \<Rightarrow> rat \<Rightarrow> rat \<Rightarrow> bool \<times> 'a Entity_scheme" where
  "Entity_takeDamage e amount knockbackX =
     (if invincible e > 0 then (False, e)
      else let e1 = e\<lparr>health := health e - amount\<rparr>;
               e2 = e1\<lparr>vx := knockbackX\<rparr>;
               e3 = e2\<lparr>vy := - 3\<rparr>;
               e4 = e3\<lparr>invincible := INVINCIBILITY_DURATION\<rparr>
           in (True, if health e4 \<le> 0 then e4\<lparr>dead := True\<rparr> else e4))"

section \<open>Player\<close>

definition new_Player :: "rat \<Rightarrow> rat \<Rightarrow> Player" where
  "new_Player px py =
     \<lparr>x = px, y = py, w = 30, h = 50, vx = 0, vy = 0, facing = 1, grounded = False,
      dead = False, invincible = 0, animFrame = 0, animTimer = 0,
      health = 100, maxHealth = 100, state = ''idle'',
      maxEnergy = 100, energy = 100, combo = 0, comboTimer = 0,
      punchCount = 0, punchTimer = 0, blocking = False, dashing = False, dashTimer = 0,
      attackBox = None, attackTimer = 0\<rparr>"

definition punch :: "Player \<Rightarrow> Player" where
  "punch p =
     (let p1 = p\<lparr>punchCount := (punchCount p mod 3) + 1\<rparr>;
          p2 = p1\<lparr>punchTimer := 20, attackTimer := 15, Entity.state := ''punch''\<rparr>;
          reach = 40;
          p3 = p2\<lparr>attackBox := Some
                 \<lparr>x = (if facing p2 > 0 then x p2 + w p2 else x p2 - reach),
                  y = y p2 + 10, w = reach, h = 30,
                  Hitbox.damage = 10 + of_int (punchCount p2) * 5,
                  knockback = facing p2 * 5\<rparr>\<rparr>
      in p3\<lparr>vx := vx p3 * (3 / 10)\<rparr>)"

definition kick :: "Player \<Rightarrow> Player" where
  "kick p =
     (let p1 = p\<lparr>attackTimer := 25, Entity.state := ''kick''\<rparr>;
          reach = 55
      in p1\<lparr>attackBox := Some
                 \<lparr>x = (if facing p1 > 0 then x p1 + w p1 else x p1 - reach),
                  y = y p1 + 15, w = reach, h = 25,
                  Hitbox.damage = 20, knockback = facing p1 * 8\<rparr>\<rparr>)"

definition jumpKick :: "Player \<Rightarrow> Player" where
  "jumpKick p =
     (let p1 = p\<lparr>attackTimer := 20, Entity.state := ''kick''\<rparr>;
          reach = 50
      in p1\<lparr>attackBox := Some
                 \<lparr>x = (if facing p1 > 0 then x p1 + w p1 else x p1 - reach),
                  y = y p1 + 10, w = reach, h = 35,
                  Hitbox.damage = 15, knockback = facing p1 * 6\<rparr>\<rparr>)"

text \<open>\<^verbatim>\<open>Player.special(game)\<close> changes the player and the game; the player is \<open>player g\<close>.\<close>

definition special :: "Game \<Rightarrow> Game" where
  "special g =
     (let p = player g;
          p1 = p\<lparr>energy := f64_sub (energy p) 30\<rparr>;
          p2 = p1\<lparr>attackTimer := 30, Entity.state := ''punch''\<rparr>;
          reach = 80;
          p3 = p2\<lparr>attackBox := Some
                 \<lparr>x = (if facing p2 > 0 then x p2 + w p2 - 20 else x p2 - reach + 20),
                  y = y p2 - 10, w = reach, h = 70,
                  Hitbox.damage = 40, knockback = facing p2 * 12\<rparr>\<rparr>;
          g1 = g\<lparr>player := p3\<rparr>;
          g2 = g1\<lparr>screenShake := 10\<rparr>;
          g3 = playSound ''special'' g2
      in pushParticles 10
           (\<lambda>r1 r2. new_Particle (x p3 + w p3 / 2) (y p3 + h p3 / 2)
                      ((r1 - 1 / 2) * 10) ((r2 - 1 / 2) * 10) ''#8844ff'' 30 4) g3)"

definition Player_updateAnimation :: "Player \<Rightarrow> Player" where
  "Player_updateAnimation p =
     (let p1 = p\<lparr>animTimer := animTimer p + 1\<rparr>
      in if animTimer p1 > 6 then p1\<lparr>animTimer := 0, animFrame := (animFrame p1 + 1) mod 4\<rparr>
         else p1)"

definition addCombo :: "Player \<Rightarrow> Player" where
  "addCombo p =
     (let p1 = p\<lparr>combo := combo p + 1\<rparr>;
          p2 = p1\<lparr>combo := min (combo p1) MAX_COMBO\<rparr>;
          p3 = p2\<lparr>comboTimer := COMBO_TIMEOUT\<rparr>
      in p3\<lparr>energy := min (f64_add (energy p3) 5) (maxEnergy p3)\<rparr>)"

text \<open>
  \<^verbatim>\<open>Player.update(input, game)\<close>, in the source's blocks. \<open>Player_timers\<close> is "Update state
  timers", \<open>Player_regen\<close> is "Energy regeneration": the literal \<^verbatim>\<open>0.2\<close> is the
  binary64 value \<open>f64 (1 / 5)\<close>.
\<close>

definition Player_timers :: "Player \<Rightarrow> Player" where
  "Player_timers p =
     (let p1 = (if comboTimer p > 0 then p\<lparr>comboTimer := comboTimer p - 1\<rparr> else p\<lparr>combo := 0\<rparr>);
          p2 = (if punchTimer p1 > 0 then p1\<lparr>punchTimer := punchTimer p1 - 1\<rparr> else p1);
          p3 = (if attackTimer p2 > 0 then p2\<lparr>attackTimer := attackTimer p2 - 1\<rparr> else p2)
      in if dashTimer p3 > 0 then p3\<lparr>dashTimer := dashTimer p3 - 1\<rparr> else p3)"

definition Player_regen :: "Player \<Rightarrow> Player" where
  "Player_regen p =
     (if energy p < maxEnergy p then p\<lparr>energy := f64_add (energy p) (f64 (1 / 5))\<rparr> else p)"

definition Player_movement :: "Input \<Rightarrow> Player \<Rightarrow> Player" where
  "Player_movement inp p =
     (let moveInput = getJoystickX inp
      in if \<bar>moveInput\<bar> > 1 / 10
         then let p1 = (if \<not> dashing p then p\<lparr>vx := moveInput * PLAYER_SPEED\<rparr> else p);
                  p2 = p1\<lparr>facing := (if moveInput > 0 then 1 else - 1)\<rparr>
              in if grounded p2 \<and> Entity.state p2 \<noteq> ''punch'' \<and> Entity.state p2 \<noteq> ''kick''
                 then p2\<lparr>Entity.state := ''walk''\<rparr> else p2
         else if grounded p \<and> Entity.state p \<noteq> ''punch'' \<and> Entity.state p \<noteq> ''kick''
              then p\<lparr>Entity.state := ''idle''\<rparr> else p)"

definition Player_jump :: "Input \<Rightarrow> Game \<Rightarrow> Game" where
  "Player_jump inp g =
     (let p = player g
      in if isPressed inp ''jump'' \<and> grounded p \<and> Entity.state p \<noteq> ''punch''
            \<and> Entity.state p \<noteq> ''kick''
         then playSound ''jump''
                (g\<lparr>player := p\<lparr>vy := JUMP_FORCE, grounded := False, Entity.state := ''jump''\<rparr>\<rparr>)
         else g)"

definition Player_dash :: "Input \<Rightarrow> Game \<Rightarrow> Game" where
  "Player_dash inp g =
     (let p = player g
      in if isPressed inp ''dash'' \<and> \<not> dashing p \<and> dashTimer p \<le> 0
         then playSound ''dash''
                (g\<lparr>player := p\<lparr>dashing := True, dashTimer := DASH_DURATION,
                                invincible := DASH_DURATION\<rparr>\<rparr>)
         else g)"

definition Player_attacks :: "Input \<Rightarrow> Game \<Rightarrow> Game" where
  "Player_attacks inp g =
     (let g1 = (if isPressed inp ''attack'' \<and> attackTimer (player g) \<le> 0
                then g\<lparr>player := punch (player g)\<rparr> else g);
          g2 = (if isPressed inp ''kick'' \<and> grounded (player g1) \<and> attackTimer (player g1) \<le> 0
                then g1\<lparr>player := kick (player g1)\<rparr> else g1);
          g3 = (if isPressed inp ''special'' \<and> energy (player g2) \<ge> 30
                   \<and> attackTimer (player g2) \<le> 0
                then special g2 else g2);
          g4 = (if isPressed inp ''kick'' \<and> \<not> grounded (player g3) \<and> attackTimer (player g3) \<le> 0
                then g3\<lparr>player := jumpKick (player g3)\<rparr> else g3)
      in if attackTimer (player g4) \<le> 0 then g4\<lparr>player := (player g4)\<lparr>attackBox := None\<rparr>\<rparr>
         else g4)"

definition Player_update :: "Input \<Rightarrow> Game \<Rightarrow> Game" where
  "Player_update inp g =
     (let p = Player_regen (Player_timers (player g))
      in if dashing p
         then let p1 = p\<lparr>vx := facing p * DASH_SPEED\<rparr>;
                  p2 = (if dashTimer p1 \<le> 0 then p1\<lparr>dashing := False\<rparr> else p1)
              in g\<lparr>player := updatePhysics p2\<rparr>
         else let p1 = p\<lparr>blocking := (isPressed inp ''block'' \<and> grounded p)\<rparr>
              in if blocking p1
                 then g\<lparr>player := updatePhysics (p1\<lparr>vx := vx p1 * (1 / 2), Entity.state := ''block''\<rparr>)\<rparr>
                 else let g1 = g\<lparr>player := Player_movement inp p1\<rparr>;
                          g2 = Player_jump inp g1;
                          g3 = Player_dash inp g2;
                          g4 = Player_attacks inp g3
                      in g4\<lparr>player := Player_updateAnimation (updatePhysics (player g4))\<rparr>)"

section \<open>Zombie\<close>

text \<open>
  \<^verbatim>\<open>setupType\<close> is the source's \<^verbatim>\<open>switch\<close>: a type with no case (the boss's \<^verbatim>\<open>'boss'\<close>)
  sets nothing but \<^verbatim>\<open>health = maxHealth\<close>.
\<close>

definition setupType :: "'a Zombie_scheme \<Rightarrow> 'a Zombie_scheme" where
  "setupType z =
     (let z1 =
        (if type z = ''basic''
         then z\<lparr>maxHealth := 30, speed := 8 / 10, Zombie.damage := 10, Zombie.color := ''#4a4''\<rparr>
         else if type z = ''fast''
         then z\<lparr>maxHealth := 20, speed := 25 / 10, Zombie.damage := 8, Zombie.color := ''#6c6'',
                 w := 25, h := 40, y := y z + 10\<rparr>
         else if type z = ''tank''
         then z\<lparr>maxHealth := 80, speed := 4 / 10, Zombie.damage := 20, Zombie.color := ''#2a2'',
                 w := 40, h := 55\<rparr>
         else if type z = ''ranged''
         then z\<lparr>maxHealth := 25, speed := 1, Zombie.damage := 15, Zombie.color := ''#8a8'',
                 attackRange := 150\<rparr>
         else z)
      in z1\<lparr>health := maxHealth z1\<rparr>)"

text \<open>
  The constructor, in the order of its statements: \<^verbatim>\<open>super(x, y, 30, 50)\<close>, the type,
  \<^verbatim>\<open>setupType()\<close>, and only then \<^verbatim>\<open>attackCooldown = 0\<close>, \<^verbatim>\<open>detectRange = 200\<close>,
  \<^verbatim>\<open>attackRange = 40\<close>, \<^verbatim>\<open>state = 'idle'\<close>. Fields that are still \<^verbatim>\<open>undefined\<close> when
  \<^verbatim>\<open>setupType\<close> runs start at 0 (the empty string) here.
\<close>

definition new_Zombie :: "rat \<Rightarrow> rat \<Rightarrow> string \<Rightarrow> Zombie" where
  "new_Zombie px py ty =
     (let z0 = \<lparr>x = px, y = py, w = 30, h = 50, vx = 0, vy = 0, facing = 1, grounded = False,
                dead = False, invincible = 0, animFrame = 0, animTimer = 0,
                health = 0, maxHealth = 0, state = [],
                type = ty, speed = 0, damage = 0, color = [],
                attackCooldown = 0, detectRange = 0, attackRange = 0\<rparr>;
          z1 = setupType z0
      in z1\<lparr>attackCooldown := 0, detectRange := 200, attackRange := 40,
             Entity.state := ''idle''\<rparr>)"

definition Zombie_updateAnimation :: "'a Zombie_scheme \<Rightarrow> 'a Zombie_scheme" where
  "Zombie_updateAnimation z =
     (let z1 = z\<lparr>animTimer := animTimer z + 1\<rparr>
      in if animTimer z1 > 8 then z1\<lparr>animTimer := 0, animFrame := (animFrame z1 + 1) mod 4\<rparr>
         else z1)"

text \<open>\<^verbatim>\<open>Zombie.attack(player, game)\<close>: the player is \<open>player g\<close>.\<close>

definition Zombie_attack :: "'a Zombie_scheme \<Rightarrow> Game \<Rightarrow> 'a Zombie_scheme \<times> Game" where
  "Zombie_attack z g =
     (let z1 = z\<lparr>attackCooldown := 60, Entity.state := ''attack''\<rparr>;
          hitbox = \<lparr>x = (if facing z1 > 0 then x z1 + w z1 else x z1 - 30),
                    y = y z1, w = 30, h = 40\<rparr>
      in if rectIntersect hitbox (getBounds (player g))
         then let dmg = Zombie.damage z1;
                  (dmg1, g1) = (if blocking (player g)
                                then (of_int \<lfloor>dmg * (3 / 10)\<rfloor>, playSound ''block'' g)
                                else (dmg, g));
                  (hit, p1) = Entity_takeDamage (player g1) dmg1 (facing z1 * 3);
                  g2 = g1\<lparr>player := p1\<rparr>
              in if hit
                 then let g3 = playSound ''hit'' g2;
                          g4 = g3\<lparr>screenShake := 5\<rparr>
                      in (z1, pushParticles 5
                            (\<lambda>r1 r2. new_Particle (x p1 + w p1 / 2) (y p1 + h p1 / 2)
                                       ((r1 - 1 / 2) * 5) ((r2 - 1 / 2) * 5) ''#f00'' 20 3) g4)
                 else (z1, g2)
         else (z1, g))"

definition rangedAttack :: "'a Zombie_scheme \<Rightarrow> Game \<Rightarrow> 'a Zombie_scheme \<times> Game" where
  "rangedAttack z g =
     (let z1 = z\<lparr>attackCooldown := 90, Entity.state := ''attack''\<rparr>
      in (z1, g\<lparr>projectiles := projectiles g @
                  [new_Projectile (x z1 + w z1 / 2) (y z1 + 10) (facing z1 * 4) 0
                     (Zombie.damage z1) ''enemy'']\<rparr>))"

definition Zombie_takeDamage :: "'a Zombie_scheme \<Rightarrow> rat \<Rightarrow> rat \<Rightarrow> bool \<times> 'a Zombie_scheme" where
  "Zombie_takeDamage z amount knockbackX =
     (let (result, z1) = Entity_takeDamage z amount knockbackX
      in if result then (result, z1\<lparr>Entity.state := ''hurt''\<rparr>) else (result, z1))"

definition Zombie_update :: "'a Zombie_scheme \<Rightarrow> Game \<Rightarrow> 'a Zombie_scheme \<times> Game" where
  "Zombie_update z g =
     (if dead z then (z, g)
      else let z1 = (if attackCooldown z > 0 then z\<lparr>attackCooldown := attackCooldown z - 1\<rparr> else z);
               distToPlayer = x (player g) - x z1;
               absDist = \<bar>distToPlayer\<bar>;
               (z2, g2) =
                 (if absDist < detectRange z1
                  then if absDist > attackRange z1
                       then let z' = z1\<lparr>facing := (if distToPlayer > 0 then 1 else - 1)\<rparr>
                            in (z'\<lparr>vx := facing z' * speed z', Entity.state := ''walk''\<rparr>, g)
                       else if attackCooldown z1 \<le> 0
                       then Zombie_attack z1 g
                       else (z1\<lparr>vx := vx z1 * (1 / 2), Entity.state := ''idle''\<rparr>, g)
                  else (z1\<lparr>vx := vx z1 * (1 / 2), Entity.state := ''idle''\<rparr>, g));
               (z3, g3) =
                 (if type z2 = ''ranged'' \<and> absDist < attackRange z2 \<and> attackCooldown z2 \<le> 0
                  then rangedAttack z2 g2 else (z2, g2))
           in (Zombie_updateAnimation (updatePhysics z3), g3))"

section \<open>Boss\<close>

definition new_Boss :: "rat \<Rightarrow> rat \<Rightarrow> Boss" where
  "new_Boss px py =
     (let b0 = Zombie.extend (new_Zombie px py ''boss'') (Boss.fields 1 0)
      in b0\<lparr>w := 60, h := 80, maxHealth := 300, health := 300, speed := 6 / 10,
             Zombie.damage := 25, Zombie.color := ''#484'', phase := 1, specialCooldown := 0\<rparr>)"

definition groundSmash :: "Boss \<Rightarrow> Game \<Rightarrow> Boss \<times> Game" where
  "groundSmash b g =
     (let b1 = b\<lparr>specialCooldown := 180\<rparr>;
          dist = \<bar>x (player g) - x b1\<bar>;
          g1 = (if dist < 120
                then let (hit, p1) = Entity_takeDamage (player g) 20
                                       ((if x (player g) > x b1 then 1 else - 1) * 8);
                         g' = playSound ''hit'' (g\<lparr>player := p1\<rparr>)
                     in g'\<lparr>screenShake := 15\<rparr>
                else g);
          g2 = pushParticles 20
                 (\<lambda>r1 r2. new_Particle (x b1 + w b1 / 2) (y b1 + h b1)
                            ((r1 - 1 / 2) * 10) (- r2 * 5) ''#664'' 40 5) g1
      in if phase b1 = 2
         then (b1, g2\<lparr>enemies := enemies g2 @
                       [AZombie (new_Zombie (x b1 - 50) (GROUND_Y - 50) ''basic''),
                        AZombie (new_Zombie (x b1 + w b1 + 50) (GROUND_Y - 50) ''basic'')]\<rparr>)
         else (b1, g2))"

text \<open>
  \<^verbatim>\<open>Boss.update\<close>: \<open>Boss_phaseTransition\<close> is its block "Phase transition" followed by the
  countdown of the special cooldown; then come \<^verbatim>\<open>super.update\<close> and "Special attack".
  The test \<^verbatim>\<open>hpPercent < 0.5\<close> is on \<^verbatim>\<open>health / maxHealth\<close>; a division by 0 gives an
  infinity with the sign of \<^verbatim>\<open>health\<close>, or \<^verbatim>\<open>NaN\<close>, and of these only \<^verbatim>\<open>-Infinity\<close> is below 0.5.
\<close>

definition Boss_phaseTransition :: "Boss \<Rightarrow> Boss" where
  "Boss_phaseTransition b =
     (let hpPercent_below_half =
            (if maxHealth b = 0 then health b < 0 else health b / maxHealth b < 1 / 2);
          b1 = (if hpPercent_below_half \<and> phase b = 1
                then b\<lparr>phase := 2, speed := 1, attackCooldown := 0\<rparr> else b)
      in if specialCooldown b1 > 0 then b1\<lparr>specialCooldown := specialCooldown b1 - 1\<rparr> else b1)"

definition Boss_update :: "Boss \<Rightarrow> Game \<Rightarrow> Boss \<times> Game" where
  "Boss_update b g =
     (if dead b then (b, g)
      else let (b3, g3) = Zombie_update (Boss_phaseTransition b) g
           in if specialCooldown b3 \<le> 0 \<and> \<bar>x (player g3) - x b3\<bar> < 100
              then groundSmash b3 g3 else (b3, g3))"

text \<open>
  What happens to a boss while it is in \<^verbatim>\<open>Game.enemies\<close>: the enemy pass calls its
  \<^verbatim>\<open>update\<close> against the game of that moment and, when the player's attack box meets
  it, its \<^verbatim>\<open>takeDamage\<close>. \<open>Boss_life\<close> runs any sequence of the two.
\<close>

datatype boss_event = Tick Game | Hit rat rat

fun Boss_apply :: "boss_event \<Rightarrow> Boss \<Rightarrow> Boss" where
  "Boss_apply (Tick g) b = fst (Boss_update b g)"
| "Boss_apply (Hit amount knockbackX) b = snd (Zombie_takeDamage b amount knockbackX)"

definition Boss_life :: "Boss \<Rightarrow> boss_event list \<Rightarrow> Boss" where
  "Boss_life b evs = fold Boss_apply evs b"

section \<open>Dispatch on the class of an enemy\<close>

fun enemy_dead :: "enemy \<Rightarrow> bool" where
  "enemy_dead (AZombie z) = dead z"
| "enemy_dead (ABoss b) = dead b"

fun enemy_getBounds :: "enemy \<Rightarrow> Rect" where
  "enemy_getBounds (AZombie z) = getBounds z"
| "enemy_getBounds (ABoss b) = getBounds b"

fun enemy_update :: "enemy \<Rightarrow> Game \<Rightarrow> enemy \<times> Game" where
  "enemy_update (AZombie z) g = (let (z1, g1) = Zombie_update z g in (AZombie z1, g1))"
| "enemy_update (ABoss b) g = (let (b1, g1) = Boss_update b g in (ABoss b1, g1))"

fun enemy_takeDamage :: "enemy \<Rightarrow> rat \<Rightarrow> rat \<Rightarrow> bool \<times> enemy" where
  "enemy_takeDamage (AZombie z) a k = (let (r, z1) = Zombie_takeDamage z a k in (r, AZombie z1))"
| "enemy_takeDamage (ABoss b) a k = (let (r, b1) = Zombie_takeDamage b a k in (r, ABoss b1))"

section \<open>Game\<close>

text \<open>
  \<^verbatim>\<open>Game.reset()\<close> builds the state a game starts from, \<open>startGame\<close> sets it playing. The
  environment fields are kept. The DOM calls of the source are left out throughout:
  they read the state and write only to the page.
\<close>

definition idle_input :: Input where
  "idle_input = \<lparr>buttons = (\<lambda>b. False), joystick_x = 0\<rparr>"

definition press :: "string \<Rightarrow> Input" where
  "press name = \<lparr>buttons = (\<lambda>b. b = name), joystick_x = 0\<rparr>"

text \<open>
  The game as \<^verbatim>\<open>new Game()\<close> leaves it (state \<^verbatim>\<open>'menu'\<close> and the values of \<^verbatim>\<open>reset()\<close>),
  in an environment with no button pressed, a canvas 800 wide, the clock at 0 and
  \<^verbatim>\<open>Math.random()\<close> returning the given sequence.
\<close>

definition new_Game :: "(nat \<Rightarrow> rat) \<Rightarrow> Game" where
  "new_Game rs =
     \<lparr>state = ''menu'', player = new_Player 100 (GROUND_Y - 50), enemies = [],
      projectiles = [], particles = [], portal = None, cameraX = 0, level = 1, score = 0,
      kills = 0, maxCombo = 0, startTime = 0, elapsedTime = 0, spawnTimer = 0,
      enemiesToSpawn = 10, enemiesSpawned = 0, bossSpawned = False, screenShake = 0,
      input = idle_input, canvas_width = 800, date_now = 0, cues = [],
      random_seq = rs, random_idx = 0\<rparr>"

definition reset :: "Game \<Rightarrow> Game" where
  "reset g =
     g\<lparr>player := new_Player 100 (GROUND_Y - 50), enemies := [], projectiles := [],
       particles := [], portal := None, cameraX := 0, level := 1, score := 0, kills := 0,
       maxCombo := 0, startTime := 0, elapsedTime := 0, spawnTimer := 0,
       enemiesToSpawn := 10, enemiesSpawned := 0, bossSpawned := False, screenShake := 0\<rparr>"

definition startGame :: "Game \<Rightarrow> Game" where
  "startGame g = (reset g)\<lparr>Game.state := ''playing'', startTime := date_now g\<rparr>"

definition nextLevel :: "Game \<Rightarrow> Game" where
  "nextLevel g =
     (let g1 = g\<lparr>level := level g + 1\<rparr>;
          p = player g1;
          p1 = p\<lparr>x := 100\<rparr>;
          p2 = p1\<lparr>health := min (health p1 + 30) (maxHealth p1)\<rparr>;
          g2 = g1\<lparr>player := p2, enemies := [], projectiles := [], particles := [],
                 portal := None, enemiesSpawned := 0, bossSpawned := False\<rparr>;
          g3 = g2\<lparr>enemiesToSpawn := 10 + level g2 * 3, spawnTimer := 0, cameraX := 0\<rparr>
      in g3\<lparr>Game.state := ''playing''\<rparr>)"

text \<open>
  \<^verbatim>\<open>types[Math.floor(Math.random() * types.length)]\<close>: an index outside the array reads
  \<^verbatim>\<open>undefined\<close>, a type for which \<^verbatim>\<open>setupType\<close> has no case.
\<close>

definition spawnEnemy :: "Game \<Rightarrow> Game" where
  "spawnEnemy g =
     (if enemiesSpawned g \<ge> enemiesToSpawn g then g
      else let types = [''basic'', ''basic'', ''fast'']
                       @ (if level g > 1 then [''tank''] else [])
                       @ (if level g > 2 then [''ranged''] else []);
               (r1, g1) = Math_random g;
               i = \<lfloor>r1 * of_nat (length types)\<rfloor>;
               ty = (if 0 \<le> i \<and> i < int (length types) then types ! nat i else ''undefined'');
               (r2, g2) = Math_random g1;
               spawnRight = (r2 > 1 / 2);
               (r3, g3) = Math_random g2;
               sx = (if spawnRight then x (player g3) + 400 + r3 * 200
                     else max 50 (x (player g3) - 400 - r3 * 200));
               g4 = g3\<lparr>enemies := enemies g3 @ [AZombie (new_Zombie sx (GROUND_Y - 50) ty)]\<rparr>
           in g4\<lparr>enemiesSpawned := enemiesSpawned g4 + 1\<rparr>)"

definition spawnBoss :: "Game \<Rightarrow> Game" where
  "spawnBoss g =
     (let g1 = g\<lparr>bossSpawned := True\<rparr>
      in g1\<lparr>enemies := enemies g1 @ [ABoss (new_Boss (x (player g1) + 500) (GROUND_Y - 80))]\<rparr>)"

definition levelComplete :: "Game \<Rightarrow> Game" where
  "levelComplete g = playSound ''levelComplete'' (g\<lparr>Game.state := ''complete''\<rparr>)"

definition gameOver :: "Game \<Rightarrow> Game" where
  "gameOver g = playSound ''gameOver'' (g\<lparr>Game.state := ''gameover''\<rparr>)"

text \<open>The blocks of \<^verbatim>\<open>Game.update()\<close>, each named after its comment in the source.\<close>

definition screenShakeDecay :: "Game \<Rightarrow> Game" where
  "screenShakeDecay g =
     (let g1 = (if screenShake g > 0 then g\<lparr>screenShake := screenShake g * (9 / 10)\<rparr> else g)
      in if screenShake g1 < 1 / 2 then g1\<lparr>screenShake := 0\<rparr> else g1)"

definition updateCamera :: "Game \<Rightarrow> Game" where
  "updateCamera g =
     (let targetCameraX = x (player g) - canvas_width g / 3;
          g1 = g\<lparr>cameraX := lerp (cameraX g) targetCameraX (1 / 10)\<rparr>
      in g1\<lparr>cameraX := clamp (cameraX g1) 0 (LEVEL_LENGTH - canvas_width g1)\<rparr>)"

text \<open>\<^verbatim>\<open>this.spawnTimer-- <= 0\<close> compares the old value and always decrements.\<close>

definition spawnEnemies :: "Game \<Rightarrow> Game" where
  "spawnEnemies g =
     (let old = spawnTimer g;
          g1 = g\<lparr>spawnTimer := old - 1\<rparr>
      in if old \<le> 0 \<and> enemiesSpawned g1 < enemiesToSpawn g1
         then (spawnEnemy g1)\<lparr>spawnTimer := SPAWN_RATE - min (level g1 * 10) 60\<rparr>
         else g1)"

definition spawnBossStep :: "Game \<Rightarrow> Game" where
  "spawnBossStep g =
     (if enemiesSpawned g \<ge> enemiesToSpawn g \<and> \<not> bossSpawned g \<and> level g mod 3 = 0
      then if enemies g = [] then spawnBoss g else g
      else g)"

definition activatePortal :: "Game \<Rightarrow> Game" where
  "activatePortal g =
     (if enemiesSpawned g \<ge> enemiesToSpawn g \<and> enemies g = [] \<and> portal g = None
         \<and> \<not> bossSpawned g
      then playSound ''portal'' (g\<lparr>portal := Some (new_Portal (LEVEL_LENGTH - 150) (GROUND_Y - 80))\<rparr>)
      else g)"

definition updatePortal :: "Game \<Rightarrow> Game" where
  "updatePortal g =
     (case portal g of
        None \<Rightarrow> g
      | Some po \<Rightarrow>
          let po1 = Portal_update po;
              g1 = g\<lparr>portal := Some po1\<rparr>
          in if rectIntersect (getBounds (player g1)) po1 then levelComplete g1 else g1)"

text \<open>
  The callback of \<^verbatim>\<open>this.enemies.filter\<close>: whether the element is kept, the element and
  the game as the callback leaves them.
\<close>

definition enemy_step :: "enemy \<Rightarrow> Game \<Rightarrow> bool \<times> enemy \<times> Game" where
  "enemy_step e g =
     (if \<not> enemy_dead e
      then let (e1, g1) = enemy_update e g
           in case attackBox (player g1) of
                None \<Rightarrow> (True, e1, g1)
              | Some box \<Rightarrow>
                  if rectIntersect box (enemy_getBounds e1)
                  then let (hit, e2) = enemy_takeDamage e1 (Hitbox.damage box) (knockback box)
                       in if hit
                          then let g2 = playSound ''zombieHit'' g1;
                                   g3 = g2\<lparr>screenShake := 3\<rparr>;
                                   g4 = g3\<lparr>player := addCombo (player g3)\<rparr>;
                                   g5 = g4\<lparr>score := score g4 + 100 * combo (player g4)\<rparr>;
                                   g6 = g5\<lparr>maxCombo := max (maxCombo g5) (combo (player g5))\<rparr>;
                                   b = enemy_getBounds e2
                               in (True, e2, pushParticles 8
                                     (\<lambda>r1 r2. new_Particle (x b + w b / 2) (y b + h b / 2)
                                                ((r1 - 1 / 2) * 6) ((r2 - 1 / 2) * 6) ''#4a4'' 25 4) g6)
                          else (True, e2, g1)
                  else (True, e1, g1)
      else let g1 = g\<lparr>kills := kills g + 1\<rparr>;
               g2 = g1\<lparr>score := score g1 + 50\<rparr>;
               b = enemy_getBounds e
           in (False, e, pushParticles 15
                 (\<lambda>r1 r2. new_Particle (x b + w b / 2) (y b + h b / 2)
                            ((r1 - 1 / 2) * 8) ((r2 - 1 / 2) * 8) ''#2a2'' 40 5) g2))"

text \<open>
  \<^verbatim>\<open>Array.prototype.filter\<close> visits the elements the array had when it was called and
  builds a new array of those kept.
\<close>

fun enemies_filter :: "enemy list \<Rightarrow> Game \<Rightarrow> enemy list \<times> Game" where
  "enemies_filter [] g = ([], g)"
| "enemies_filter (e # es) g =
     (let (keep, e1, g1) = enemy_step e g;
          (kept, g2) = enemies_filter es g1
      in (if keep then e1 # kept else kept, g2))"

text \<open>
  \<^verbatim>\<open>this.enemies = this.enemies.filter(...)\<close>: the new array replaces the old one, and
  with it whatever a callback pushed to \<^verbatim>\<open>game.enemies\<close> during the pass.
\<close>

definition updateEnemies :: "Game \<Rightarrow> Game" where
  "updateEnemies g = (let (kept, g1) = enemies_filter (enemies g) g in g1\<lparr>enemies := kept\<rparr>)"

definition projectile_step :: "Projectile \<Rightarrow> Game \<Rightarrow> bool \<times> Projectile \<times> Game" where
  "projectile_step p g =
     (let p1 = Projectile_update p
      in if owner p1 = ''enemy''
            \<and> rectIntersect \<lparr>x = x p1, y = y p1, w = w p1, h = h p1\<rparr> (getBounds (player g))
         then let (hit, pl) = Entity_takeDamage (player g) (Projectile.damage p1)
                                (if Projectile.vx p1 > 0 then 3 else - 3);
                  g1 = g\<lparr>player := pl\<rparr>
              in (False, p1, if hit then playSound ''hit'' g1 else g1)
         else (x p1 > cameraX g - 100 \<and> x p1 < cameraX g + canvas_width g + 100, p1, g))"

fun projectiles_filter :: "Projectile list \<Rightarrow> Game \<Rightarrow> Projectile list \<times> Game" where
  "projectiles_filter [] g = ([], g)"
| "projectiles_filter (p # ps) g =
     (let (keep, p1, g1) = projectile_step p g;
          (kept, g2) = projectiles_filter ps g1
      in (if keep then p1 # kept else kept, g2))"

definition updateProjectiles :: "Game \<Rightarrow> Game" where
  "updateProjectiles g =
     (let (kept, g1) = projectiles_filter (projectiles g) g in g1\<lparr>projectiles := kept\<rparr>)"

definition updateParticles :: "Game \<Rightarrow> Game" where
  "updateParticles g =
     g\<lparr>particles := filter (\<lambda>p. life p > 0) (map Particle_update (particles g))\<rparr>"

definition checkGameOver :: "Game \<Rightarrow> Game" where
  "checkGameOver g = (if dead (player g) then gameOver g else g)"

definition Game_update :: "Game \<Rightarrow> Game" where
  "Game_update g =
     (if Game.state g \<noteq> ''playing'' then g
      else let g1 = g\<lparr>elapsedTime := (date_now g - startTime g) / 1000\<rparr>;
               g2 = screenShakeDecay g1;
               g3 = Player_update (input g2) g2;
               g4 = updateCamera g3;
               g5 = spawnEnemies g4;
               g6 = spawnBossStep g5;
               g7 = activatePortal g6;
               g8 = updatePortal g7;
               g9 = updateEnemies g8;
               g10 = updateProjectiles g9;
               g11 = updateParticles g10
           in checkGameOver g11)"

text \<open>A game in play around a given player, every random number being \<open>1/2\<close>.\<close>

definition game_with :: "Player \<Rightarrow> Game" where
  "game_with p = (new_Game (\<lambda>n. 1 / 2))\<lparr>Game.state := ''playing'', player := p\<rparr>"

text \<open>
  Level 3 after its boss has been spawned and killed and the enemy pass has removed it:
  the quota of \<open>10 + 3 * 3\<close> is spawned, nothing is alive, \<^verbatim>\<open>bossSpawned\<close> is set.
\<close>

definition after_boss :: Game where
  "after_boss = (game_with (new_Player 100 330))\<lparr>level := 3, enemiesToSpawn := 19,
     enemiesSpawned := 19, bossSpawned := True\<rparr>"

section \<open>Rounding to binary64\<close>

text \<open>
  The exponent found by \<open>binade\<close> is the right one, rounding is monotone, and integers
  below \<open>2^53\<close> are binary64 values.
\<close>

lemma pow2_eq: "pow2 e = power_int 2 e"
  by (simp add: pow2_def power_int_def power_one_over inverse_eq_divide)

lemma pow2_pos [simp]: "0 < pow2 e"
  by (simp add: pow2_eq)

lemma pow2_nonneg [simp]: "0 \<le> pow2 e"
  by (rule less_imp_le) (rule pow2_pos)

lemma pow2_nz [simp]: "pow2 e \<noteq> 0"
  by (metis less_irrefl pow2_pos)

lemma pow2_mono: "e \<le> e' \<Longrightarrow> pow2 e \<le> pow2 e'"
  by (simp add: pow2_eq power_int_increasing)

lemma pow2_less_imp: "pow2 e < pow2 e' \<Longrightarrow> e < e'"
  using pow2_mono [of e' e] by (cases "e < e'") simp_all

lemma pow2_add: "pow2 (e + e') = pow2 e * pow2 e'"
  by (simp add: pow2_eq power_int_add)

lemma pow2_diff: "pow2 (e - e') = pow2 e / pow2 e'"
  by (simp add: pow2_eq power_int_diff)

lemma pow2_Suc: "pow2 (e + 1) = 2 * pow2 e"
  by (simp add: pow2_eq power_int_add_1)

lemma pow2_pred: "pow2 (e - 1) = pow2 e / 2"
  using pow2_Suc [of "e - 1"] by simp

lemma expo_up_spec:
  "1 \<le> a \<Longrightarrow> 0 \<le> expo_up a \<and> pow2 (expo_up a) \<le> a \<and> a < 2 * pow2 (expo_up a)"
proof (induction a rule: expo_up.induct)
  case (1 a)
  show ?case
  proof (cases "a < 2")
    case True
    then show ?thesis using "1.prems" by (subst (1 2 3) expo_up.simps) (simp add: pow2_def)
  next
    case False
    then have "1 \<le> a / 2" by simp
    note ih = "1.IH" [OF False this]
    have step: "expo_up a = expo_up (a / 2) + 1"
      using False by (subst expo_up.simps) simp
    from ih show ?thesis unfolding step pow2_Suc by simp
  qed
qed

lemma expo_down_spec:
  "0 < a \<Longrightarrow> a < 1 \<Longrightarrow> pow2 (expo_down a) \<le> a \<and> a < 2 * pow2 (expo_down a)"
proof (induction a rule: expo_down.induct)
  case (1 a)
  have step: "expo_down a = expo_down (2 * a) - 1"
    using "1.prems" by (subst expo_down.simps) simp
  show ?case
  proof (cases "2 * a < 1")
    case True
    from "1.IH" [of] "1.prems" True
    have "pow2 (expo_down (2 * a)) \<le> 2 * a \<and> 2 * a < 2 * pow2 (expo_down (2 * a))"
      by simp
    then show ?thesis unfolding step pow2_pred by simp
  next
    case False
    then have "expo_down (2 * a) = 0" by (subst expo_down.simps) simp
    then show ?thesis unfolding step using False "1.prems" by (simp add: pow2_def)
  qed
qed

lemma binade_spec: "0 < a \<Longrightarrow> pow2 (binade a) \<le> a \<and> a < pow2 (binade a + 1)"
  using expo_up_spec [of a] expo_down_spec [of a] by (simp add: binade_def pow2_Suc)

lemma binade_unique:
  assumes "pow2 e \<le> a" and "a < pow2 (e + 1)"
  shows "binade a = e"
proof -
  have a: "0 < a" using assms(1) pow2_pos [of e] by linarith
  note s = binade_spec [OF a]
  have "pow2 e < pow2 (binade a + 1)" using assms(1) s by linarith
  then have 1: "e < binade a + 1" by (rule pow2_less_imp)
  have "pow2 (binade a) < pow2 (e + 1)" using assms(2) s by linarith
  then have 2: "binade a < e + 1" by (rule pow2_less_imp)
  from 1 2 show ?thesis by simp
qed

lemma binade_mono:
  assumes "0 < a" and "a \<le> b"
  shows "binade a \<le> binade b"
proof -
  have "pow2 (binade a) < pow2 (binade b + 1)"
    using binade_spec [OF assms(1)] binade_spec [of b] assms by linarith
  then have "binade a < binade b + 1" by (rule pow2_less_imp)
  then show ?thesis by simp
qed


lemma rhe_bounds: "\<lfloor>m\<rfloor> \<le> round_half_even m \<and> round_half_even m \<le> \<lfloor>m\<rfloor> + 1"
  by (simp add: round_half_even_def Let_def)

lemma rhe_of_int [simp]: "round_half_even (of_int z) = z"
  by (simp add: round_half_even_def Let_def)

lemma rhe_ge_int:
  assumes "of_int z \<le> m"
  shows "z \<le> round_half_even m"
proof -
  have "z \<le> \<lfloor>m\<rfloor>" using assms by (simp add: le_floor_iff)
  with rhe_bounds [of m] show ?thesis by linarith
qed

lemma rhe_le_int:
  assumes "m \<le> of_int z"
  shows "round_half_even m \<le> z"
proof (cases "m = of_int z")
  case True
  then show ?thesis by simp
next
  case False
  with assms have "m < of_int z" by simp
  then have "\<lfloor>m\<rfloor> < z" by (simp add: floor_less_iff)
  with rhe_bounds [of m] show ?thesis by simp
qed

lemma rhe_mono:
  assumes "m \<le> m'"
  shows "round_half_even m \<le> round_half_even m'"
proof (cases "\<lfloor>m\<rfloor> = \<lfloor>m'\<rfloor>")
  case True
  have "m - of_int \<lfloor>m'\<rfloor> \<le> m' - of_int \<lfloor>m'\<rfloor>" using assms by simp
  then show ?thesis
    unfolding round_half_even_def Let_def True by auto
next
  case False
  have "\<lfloor>m\<rfloor> \<le> \<lfloor>m'\<rfloor>" using assms by (rule floor_mono)
  with False have "\<lfloor>m\<rfloor> + 1 \<le> \<lfloor>m'\<rfloor>" by simp
  with rhe_bounds [of m] rhe_bounds [of m'] show ?thesis by linarith
qed

lemma f64_pos:
  "0 < q \<Longrightarrow> f64 q = of_int (round_half_even (q / pow2 (binade q - 52))) * pow2 (binade q - 52)"
  by (simp add: f64_def Let_def)

lemma f64_0 [simp]: "f64 0 = 0"
  by (simp add: f64_def)

lemma f64_minus: "f64 (- q) = - f64 q"
  by (simp add: f64_def Let_def sgn_minus)

lemma pow2_52: "pow2 52 = of_int 4503599627370496" and pow2_53: "pow2 53 = of_int 9007199254740992"
  by (simp_all add: pow2_def)

lemma f64_range:
  assumes "0 < q"
  shows "pow2 (binade q) \<le> f64 q \<and> f64 q \<le> pow2 (binade q + 1)"
proof -
  let ?e = "binade q" and ?s = "binade q - 52"
  let ?m = "q / pow2 ?s"
  note b = binade_spec [OF assms]
  have e: "pow2 ?e = pow2 52 * pow2 ?s"
    using pow2_add [of 52 ?s] by simp
  have e1: "pow2 (?e + 1) = pow2 53 * pow2 ?s"
    using pow2_add [of 53 ?s] by (simp add: algebra_simps)
  have "pow2 52 \<le> ?m" using b by (simp add: e pos_le_divide_eq)
  then have lo: "4503599627370496 \<le> round_half_even ?m"
    unfolding pow2_52 by (rule rhe_ge_int)
  have "?m \<le> pow2 53" using b by (simp add: e1 pos_divide_le_eq)
  then have hi: "round_half_even ?m \<le> 9007199254740992"
    unfolding pow2_53 by (rule rhe_le_int)
  have "(of_int 4503599627370496 :: rat) \<le> of_int (round_half_even ?m)"
    using lo by (simp only: of_int_le_iff)
  then have "pow2 ?e \<le> of_int (round_half_even ?m) * pow2 ?s"
    unfolding e pow2_52 by (rule mult_right_mono) simp
  moreover have "(of_int (round_half_even ?m) :: rat) \<le> of_int 9007199254740992"
    using hi by (simp only: of_int_le_iff)
  then have "of_int (round_half_even ?m) * pow2 ?s \<le> pow2 (?e + 1)"
    unfolding e1 pow2_53 by (rule mult_right_mono) simp
  ultimately show ?thesis by (simp add: f64_pos [OF assms])
qed

lemma f64_pos_pos: "0 < q \<Longrightarrow> 0 < f64 q"
  using f64_range [of q] pow2_pos [of "binade q"] by linarith

lemma f64_mono_pos:
  assumes "0 < a" and "a \<le> b"
  shows "f64 a \<le> f64 b"
proof (cases "binade a = binade b")
  case True
  have b: "0 < b" using assms by simp
  have "a / pow2 (binade b - 52) \<le> b / pow2 (binade b - 52)"
    using assms(2) by (rule divide_right_mono) (simp add: less_imp_le)
  then have "round_half_even (a / pow2 (binade b - 52)) \<le> round_half_even (b / pow2 (binade b - 52))"
    by (rule rhe_mono)
  then have "(of_int (round_half_even (a / pow2 (binade b - 52))) :: rat)
      \<le> of_int (round_half_even (b / pow2 (binade b - 52)))" by (simp only: of_int_le_iff)
  then show ?thesis
    unfolding f64_pos [OF assms(1)] f64_pos [OF b] True
    by (rule mult_right_mono) simp
next
  case False
  have b: "0 < b" using assms by simp
  from False binade_mono [OF assms] have "binade a + 1 \<le> binade b" by simp
  then have "pow2 (binade a + 1) \<le> pow2 (binade b)" by (rule pow2_mono)
  with f64_range [OF assms(1)] f64_range [OF b] show ?thesis by linarith
qed

lemma f64_mono:
  assumes "a \<le> b"
  shows "f64 a \<le> f64 b"
proof -
  consider "0 < a" | "a = 0" | "a < 0" "0 \<le> b" | "a < 0" "b < 0" by linarith
  then show ?thesis
  proof cases
    case 1
    then show ?thesis using assms by (rule f64_mono_pos)
  next
    case 2
    then show ?thesis using assms f64_pos_pos [of b] by (cases "b = 0") simp_all
  next
    case 3
    have "f64 (- a) > 0" using 3 by (intro f64_pos_pos) simp
    then have "f64 a < 0" by (simp add: f64_minus)
    moreover have "0 \<le> f64 b" using 3 f64_pos_pos [of b] by (cases "b = 0") simp_all
    ultimately show ?thesis by simp
  next
    case 4
    have "f64 (- b) \<le> f64 (- a)" using 4 assms by (intro f64_mono_pos) simp_all
    then show ?thesis by (simp add: f64_minus)
  qed
qed

lemma f64_int_pos:
  assumes "0 < n" and "n < 9007199254740992"
  shows "f64 (of_int n) = of_int n"
proof -
  let ?q = "of_int n :: rat"
  have q: "0 < ?q" using assms by simp
  note b = binade_spec [OF q]
  have "?q < pow2 53" unfolding pow2_53 using assms by (simp only: of_int_less_iff)
  with b have "pow2 (binade ?q) < pow2 53" by linarith
  then have "binade ?q < 53" by (rule pow2_less_imp)
  then have s: "0 \<le> 52 - binade ?q" by simp
  have "?q / pow2 (binade ?q - 52) = ?q * pow2 (52 - binade ?q)"
    using pow2_diff [of 0 "binade ?q - 52"] by (simp add: pow2_def field_simps)
  also have "pow2 (52 - binade ?q) = of_int (2 ^ nat (52 - binade ?q))"
    using s by (simp add: pow2_def)
  finally have m: "?q / pow2 (binade ?q - 52) = of_int (n * 2 ^ nat (52 - binade ?q))"
    by simp
  have "of_int (n * 2 ^ nat (52 - binade ?q)) * pow2 (binade ?q - 52) = ?q"
    unfolding m [symmetric] by simp
  then show ?thesis unfolding f64_pos [OF q] m rhe_of_int .
qed

lemma f64_of_int: "\<bar>n\<bar> < 9007199254740992 \<Longrightarrow> f64 (of_int n) = of_int n"
  using f64_int_pos [of n] f64_int_pos [of "- n"] f64_minus [of "of_int n"]
  by (cases "n = 0"; cases "0 < n") simp_all

lemma f64_numeral [simp]:
  "numeral k < (9007199254740992::int) \<Longrightarrow> f64 (numeral k) = numeral k"
  "numeral k < (9007199254740992::int) \<Longrightarrow> f64 (- numeral k) = - numeral k"
  "f64 1 = 1"
  using f64_of_int [of "numeral k"] f64_of_int [of "- numeral k"] f64_of_int [of 1] by simp_all

lemma f64_at:
  assumes "pow2 e \<le> q" and "q < pow2 (e + 1)"
  shows "f64 q = of_int (round_half_even (q / pow2 (e - 52))) * pow2 (e - 52)"
proof -
  have q: "0 < q" using assms(1) pow2_pos [of e] by linarith
  show ?thesis unfolding f64_pos [OF q] binade_unique [OF assms] ..
qed

lemma rhe_tie: "round_half_even (of_int z + 1 / 2) = (if even z then z else z + 1)"
proof -
  have fl: "\<lfloor>of_int z + (1 / 2 :: rat)\<rfloor> = z"
    by (rule floor_unique) simp_all
  show ?thesis unfolding round_half_even_def Let_def fl by simp
qed

lemma rhe_numeral [simp]: "round_half_even (numeral k) = numeral k"
  using rhe_of_int [of "numeral k"] by simp

text \<open>The binary64 values of \<^verbatim>\<open>0.1\<close> and \<^verbatim>\<open>0.2\<close>, and their sum as JavaScript computes it.\<close>

lemma f64_tenth: "is_f64 (3602879701896397 / 36028797018963968)"
  unfolding is_f64_def
  by (subst f64_at [of "- 4"]) (simp_all add: pow2_def)

lemma f64_two_tenths: "is_f64 (3602879701896397 / 18014398509481984)"
  unfolding is_f64_def
  by (subst f64_at [of "- 3"]) (simp_all add: pow2_def)

lemma f64_tenth_plus_two_tenths:
  "f64_add (3602879701896397 / 36028797018963968) (3602879701896397 / 18014398509481984)
     = 1351079888211149 / 4503599627370496"
proof -
  have m: "(10808639105689191 / 2 :: rat) = of_int 5404319552844595 + 1 / 2" by simp
  have r: "round_half_even (10808639105689191 / 2) = 5404319552844596"
    unfolding m rhe_tie by simp
  show ?thesis
    unfolding f64_add_def
    by (subst f64_at [of "- 2"]) (simp_all add: pow2_def r)
qed

lemma pow2_less_Suc: "pow2 k < pow2 (k + 1)"
  unfolding pow2_Suc using pow2_pos [of k] by linarith

lemma f64_pow2: "f64 (pow2 k) = pow2 k"
proof -
  have d: "pow2 k / pow2 (k - 52) = of_int 4503599627370496"
  proof -
    have "k - (k - 52) = 52" by simp
    with pow2_diff [of k "k - 52"] show ?thesis by (simp only: pow2_52)
  qed
  have a: "of_int 4503599627370496 * pow2 (k - 52) = pow2 k"
  proof -
    have "52 + (k - 52) = k" by simp
    with pow2_add [of 52 "k - 52"] show ?thesis by (simp only: pow2_52)
  qed
  show ?thesis
    unfolding f64_at [OF order_refl pow2_less_Suc] d rhe_of_int a ..
qed

lemma mantissa_range:
  assumes "0 < q"
  shows "4503599627370496 \<le> round_half_even (q / pow2 (binade q - 52))
       \<and> round_half_even (q / pow2 (binade q - 52)) \<le> 9007199254740992"
proof -
  let ?e = "binade q" and ?s = "binade q - 52"
  let ?m = "q / pow2 ?s"
  note b = binade_spec [OF assms]
  have e: "pow2 ?e = pow2 52 * pow2 ?s"
    using pow2_add [of 52 ?s] by simp
  have e1: "pow2 (?e + 1) = pow2 53 * pow2 ?s"
    using pow2_add [of 53 ?s] by (simp add: algebra_simps)
  have "pow2 52 \<le> ?m" using b by (simp add: e pos_le_divide_eq)
  then have lo: "4503599627370496 \<le> round_half_even ?m"
    unfolding pow2_52 by (rule rhe_ge_int)
  have "?m \<le> pow2 53" using b by (simp add: e1 pos_divide_le_eq)
  then have hi: "round_half_even ?m \<le> 9007199254740992"
    unfolding pow2_53 by (rule rhe_le_int)
  from lo hi show ?thesis ..
qed

lemma f64_idem_pos:
  assumes "0 < q"
  shows "f64 (f64 q) = f64 q"
proof -
  let ?e = "binade q" and ?s = "binade q - 52"
  let ?n = "round_half_even (q / pow2 ?s)"
  have v: "f64 q = of_int ?n * pow2 ?s" by (rule f64_pos [OF assms])
  note r = mantissa_range [OF assms]
  have e: "pow2 ?e = pow2 52 * pow2 ?s"
    using pow2_add [of 52 ?s] by simp
  have e1: "pow2 (?e + 1) = pow2 53 * pow2 ?s"
    using pow2_add [of 53 ?s] by (simp add: algebra_simps)
  show ?thesis
  proof (cases "?n = 9007199254740992")
    case True
    have top: "f64 q = pow2 (?e + 1)" unfolding v True e1 pow2_53 ..
    show ?thesis unfolding top by (rule f64_pow2)
  next
    case False
    with r have lt: "?n < 9007199254740992" by simp
    have "(of_int 4503599627370496 :: rat) \<le> of_int ?n" using r by (simp only: of_int_le_iff)
    then have lo: "pow2 ?e \<le> of_int ?n * pow2 ?s"
      unfolding e pow2_52 by (rule mult_right_mono) simp
    have "(of_int ?n :: rat) < of_int 9007199254740992" using lt by (simp only: of_int_less_iff)
    then have hi: "of_int ?n * pow2 ?s < pow2 (?e + 1)"
      unfolding e1 pow2_53 by (rule mult_strict_right_mono) simp
    have "f64 (of_int ?n * pow2 ?s) = of_int ?n * pow2 ?s"
      unfolding f64_at [OF lo hi] by simp
    then show ?thesis unfolding v .
  qed
qed

lemma f64_idem: "f64 (f64 q) = f64 q"
proof -
  consider "0 < q" | "q = 0" | "q < 0" by linarith
  then show ?thesis
  proof cases
    case 1
    then show ?thesis by (rule f64_idem_pos)
  next
    case 2
    then show ?thesis by simp
  next
    case 3
    then have "f64 (f64 (- q)) = f64 (- q)" by (intro f64_idem_pos) simp
    then show ?thesis by (simp add: f64_minus)
  qed
qed

lemma is_f64_f64 [simp]: "is_f64 (f64 q)" "is_f64 (f64_add a b)"
  by (simp_all add: is_f64_def f64_add_def f64_idem)

lemma le_f64_add: "is_f64 a \<Longrightarrow> a \<le> b + c \<Longrightarrow> a \<le> f64_add b c"
  using f64_mono [of a "b + c"] by (simp add: is_f64_def f64_add_def)

lemma f64_add_le: "is_f64 a \<Longrightarrow> b + c \<le> a \<Longrightarrow> f64_add b c \<le> a"
  using f64_mono [of "b + c" a] by (simp add: is_f64_def f64_add_def)

section \<open>What a block leaves unchanged\<close>

lemma Math_random_frame [simp]:
  "player (snd (Math_random g)) = player g"
  "enemies (snd (Math_random g)) = enemies g"
  "projectiles (snd (Math_random g)) = projectiles g"
  "portal (snd (Math_random g)) = portal g"
  "level (snd (Math_random g)) = level g"
  by (simp_all add: Math_random_def)

lemma pushParticles_player [simp]: "player (pushParticles n mk g) = player g"
  by (induction n arbitrary: g) (simp_all add: Math_random_def split: prod.splits)

lemma pushParticles_enemies [simp]: "enemies (pushParticles n mk g) = enemies g"
  by (induction n arbitrary: g) (simp_all add: Math_random_def split: prod.splits)

lemma pushParticles_projectiles [simp]: "projectiles (pushParticles n mk g) = projectiles g"
  by (induction n arbitrary: g) (simp_all add: Math_random_def split: prod.splits)

lemma pushParticles_portal [simp]: "portal (pushParticles n mk g) = portal g"
  by (induction n arbitrary: g) (simp_all add: Math_random_def split: prod.splits)

lemma pushParticles_level [simp]: "level (pushParticles n mk g) = level g"
  by (induction n arbitrary: g) (simp_all add: Math_random_def split: prod.splits)

lemma pushParticles_screenShake [simp]: "screenShake (pushParticles n mk g) = screenShake g"
  by (induction n arbitrary: g) (simp_all add: Math_random_def split: prod.splits)

lemma pushParticles_cues [simp]: "cues (pushParticles n mk g) = cues g"
  by (induction n arbitrary: g) (simp_all add: Math_random_def split: prod.splits)

lemma pushParticles_length [simp]:
  "length (particles (pushParticles n mk g)) = length (particles g) + n"
  by (induction n arbitrary: g) (simp_all add: Math_random_def split: prod.splits)

lemma playSound_frame [simp]:
  "player (playSound n g) = player g"
  "enemies (playSound n g) = enemies g"
  "projectiles (playSound n g) = projectiles g"
  "portal (playSound n g) = portal g"
  "level (playSound n g) = level g"
  "particles (playSound n g) = particles g"
  "screenShake (playSound n g) = screenShake g"
  by (simp_all add: playSound_def)

lemma Zombie_attack_projectiles [simp]:
  "projectiles (snd (Zombie_attack z g)) = projectiles g"
  by (simp add: Zombie_attack_def Let_def split: prod.splits)

lemma Zombie_attack_cooldown [simp]:
  "attackCooldown (fst (Zombie_attack z g)) = 60"
  by (simp add: Zombie_attack_def Let_def split: prod.splits)



lemma Projectile_update_fields [simp]:
  "owner (Projectile_update p) = owner p"
  "Projectile.damage (Projectile_update p) = Projectile.damage p"
  "Projectile.vx (Projectile_update p) = Projectile.vx p"
  "w (Projectile_update p) = w p"
  "h (Projectile_update p) = h p"
  "x (Projectile_update p) = x p + Projectile.vx p"
  "y (Projectile_update p) = y p + Projectile.vy p"
  by (simp_all add: Projectile_update_def Let_def)


lemma Zombie_attack_fst:
  "fst (Zombie_attack z g) = z\<lparr>attackCooldown := 60, Entity.state := ''attack''\<rparr>"
  by (simp add: Zombie_attack_def Let_def split: prod.splits)

lemma rangedAttack_fst:
  "fst (rangedAttack z g) = z\<lparr>attackCooldown := 90, Entity.state := ''attack''\<rparr>"
  by (simp add: rangedAttack_def Let_def)

lemma physics_anim_phase [simp]:
  "phase (Zombie_updateAnimation (updatePhysics (b::Boss))) = phase b"
  "speed (Zombie_updateAnimation (updatePhysics (b::Boss))) = speed b"
  "specialCooldown (Zombie_updateAnimation (updatePhysics (b::Boss))) = specialCooldown b"
  by (simp_all add: Zombie_updateAnimation_def updatePhysics_def Let_def)

lemma Zombie_update_phase [simp]:
  fixes b :: Boss
  shows "phase (fst (Zombie_update b g)) = phase b"
    and "speed (fst (Zombie_update b g)) = speed b"
    and "specialCooldown (fst (Zombie_update b g)) = specialCooldown b"
  by (simp_all add: Zombie_update_def Let_def Zombie_attack_fst rangedAttack_fst
      split_beta)

lemma groundSmash_phase [simp]:
  "phase (fst (groundSmash b g)) = phase b"
  "speed (fst (groundSmash b g)) = speed b"
  "specialCooldown (fst (groundSmash b g)) = 180"
  by (simp_all add: groundSmash_def Let_def split_beta)

lemma Boss_phaseTransition_phase2 [simp]:
  "phase b = 2 \<Longrightarrow> phase (Boss_phaseTransition b) = 2"
  by (simp add: Boss_phaseTransition_def Let_def)

lemma Boss_update_phase2: "phase b = 2 \<Longrightarrow> phase (fst (Boss_update b g)) = 2"
  by (simp add: Boss_update_def split_beta)

lemma Zombie_takeDamage_phase [simp]:
  fixes b :: Boss
  shows "phase (snd (Zombie_takeDamage b a k)) = phase b"
  by (simp add: Zombie_takeDamage_def Entity_takeDamage_def Let_def split_beta)

lemma Boss_apply_phase2: "phase b = 2 \<Longrightarrow> phase (Boss_apply ev b) = 2"
  by (cases ev) (simp_all add: Boss_update_phase2)

lemma Boss_life_phase2: "phase b = 2 \<Longrightarrow> phase (Boss_life b evs) = 2"
  unfolding Boss_life_def
  by (induction evs arbitrary: b) (simp_all add: Boss_apply_phase2)



lemma special_frame [simp]:
  "portal (special g) = portal g" "level (special g) = level g"
  by (simp_all add: special_def Let_def)

lemma Player_attacks_frame [simp]:
  "portal (Player_attacks inp g) = portal g" "level (Player_attacks inp g) = level g"
  by (simp_all add: Player_attacks_def Let_def)

lemma Player_update_frame [simp]:
  "portal (Player_update inp g) = portal g" "level (Player_update inp g) = level g"
  by (simp_all add: Player_update_def Player_jump_def Player_dash_def Let_def)

lemma spawnEnemies_frame [simp]:
  "portal (spawnEnemies g) = portal g" "level (spawnEnemies g) = level g"
  by (simp_all add: spawnEnemies_def spawnEnemy_def Math_random_def Let_def split_beta)

lemma early_frame [simp]:
  "portal (screenShakeDecay g) = portal g" "level (screenShakeDecay g) = level g"
  "portal (updateCamera g) = portal g" "level (updateCamera g) = level g"
  by (simp_all add: screenShakeDecay_def updateCamera_def Let_def)

lemma boss_gate_blocks_portal:
  "level g mod 3 = 0 \<Longrightarrow> portal (activatePortal (spawnBossStep g)) = portal g"
  by (simp add: activatePortal_def spawnBossStep_def spawnBoss_def Let_def)

lemma updatePortal_None: "portal g = None \<Longrightarrow> updatePortal g = g"
  by (simp add: updatePortal_def)

lemma Zombie_update_portal [simp]: "portal (snd (Zombie_update z g)) = portal g"
  by (simp add: Zombie_update_def Zombie_attack_def rangedAttack_def Let_def split_beta)

lemma groundSmash_portal [simp]: "portal (snd (groundSmash b g)) = portal g"
  by (simp add: groundSmash_def Let_def split_beta)

lemma Boss_update_portal [simp]: "portal (snd (Boss_update b g)) = portal g"
  by (simp add: Boss_update_def Let_def split_beta)

lemma enemy_update_portal [simp]: "portal (snd (enemy_update e g)) = portal g"
  by (cases e) (simp_all add: split_beta)

lemma enemy_step_portal [simp]: "portal (snd (snd (enemy_step e g))) = portal g"
  by (simp add: enemy_step_def Let_def split_beta split: option.splits)

lemma enemies_filter_portal [simp]: "portal (snd (enemies_filter es g)) = portal g"
  by (induction es arbitrary: g) (simp_all add: split_beta)

lemma projectile_step_portal [simp]: "portal (snd (snd (projectile_step p g))) = portal g"
  by (simp add: projectile_step_def Let_def split_beta)

lemma projectiles_filter_portal [simp]: "portal (snd (projectiles_filter ps g)) = portal g"
  by (induction ps arbitrary: g) (simp_all add: split_beta)

lemma late_frame [simp]:
  "portal (updateEnemies g) = portal g"
  "portal (updateProjectiles g) = portal g"
  "portal (updateParticles g) = portal g"
  "portal (checkGameOver g) = portal g"
  by (simp_all add: updateEnemies_def updateProjectiles_def updateParticles_def
      checkGameOver_def gameOver_def split_beta)

section \<open>The intersection test\<close>

text \<open>
  C3, as amended. For rectangles with binary64 coordinates, \<^verbatim>\<open>Utils.rectIntersect\<close> returns
  true when the rectangles share only a boundary edge (\<^verbatim>\<open>r1.x + r1.w == r2.x\<close> as
  JavaScript computes the sum, widths not negative, vertical extents overlapping), and
  returns true whenever their interiors overlap.
\<close>

theorem rectIntersect_touching_and_overlap:
  "(is_f64 (x r1) \<and> is_f64 (y r1) \<and> is_f64 (y r2)
      \<and> f64_add (x r1) (w r1) = x r2 \<and> 0 \<le> w r1 \<and> 0 \<le> w r2
      \<and> y r2 \<le> y r1 + h r1 \<and> y r1 \<le> y r2 + h r2
        \<longrightarrow> rectIntersect r1 r2)
   \<and> (is_f64 (x r1) \<and> is_f64 (x r2) \<and> is_f64 (y r1) \<and> is_f64 (y r2)
      \<and> x r2 < x r1 + w r1 \<and> x r1 < x r2 + w r2 \<and> y r2 < y r1 + h r1 \<and> y r1 < y r2 + h r2
        \<longrightarrow> rectIntersect r1 r2)"
proof (intro conjI impI)
  assume a: "is_f64 (x r1) \<and> is_f64 (y r1) \<and> is_f64 (y r2)
      \<and> f64_add (x r1) (w r1) = x r2 \<and> 0 \<le> w r1 \<and> 0 \<le> w r2
      \<and> y r2 \<le> y r1 + h r1 \<and> y r1 \<le> y r2 + h r2"
  then have x2: "is_f64 (x r2)" using is_f64_f64(2) [of "x r1" "w r1"] by simp
  have "x r1 \<le> f64_add (x r1) (w r1)" using a by (intro le_f64_add) simp_all
  also have "\<dots> = x r2" using a by simp
  also have "x r2 \<le> f64_add (x r2) (w r2)" using a x2 by (intro le_f64_add) simp_all
  finally have 1: "x r1 \<le> f64_add (x r2) (w r2)" .
  have 2: "y r2 \<le> f64_add (y r1) (h r1)" using a by (intro le_f64_add) simp_all
  have 3: "y r1 \<le> f64_add (y r2) (h r2)" using a by (intro le_f64_add) simp_all
  from a 1 2 3 show "rectIntersect r1 r2" by (simp add: rectIntersect_def not_less)
next
  assume a: "is_f64 (x r1) \<and> is_f64 (x r2) \<and> is_f64 (y r1) \<and> is_f64 (y r2)
      \<and> x r2 < x r1 + w r1 \<and> x r1 < x r2 + w r2 \<and> y r2 < y r1 + h r1 \<and> y r1 < y r2 + h r2"
  have "x r2 \<le> f64_add (x r1) (w r1)" "x r1 \<le> f64_add (x r2) (w r2)"
    "y r2 \<le> f64_add (y r1) (h r1)" "y r1 \<le> f64_add (y r2) (h r2)"
    using a by (simp_all add: le_f64_add)
  then show "rectIntersect r1 r2" by (simp add: rectIntersect_def not_less)
qed

text \<open>
  The first pair of the witness is \<open>(0.1, 0, 0.2, 10)\<close> and \<open>(0.30000000000000004, 0, 10, 10)\<close>:
  the exact sum of the binary64 values of 0.1 and 0.2 lies left of the second rectangle,
  their binary64 sum is its left edge.
\<close>

theorem rectIntersect_touching_and_overlap_witness:
  "3602879701896397 / 36028797018963968 + 3602879701896397 / 18014398509481984
     < (1351079888211149 / 4503599627370496 :: rat)
   \<and> rectIntersect
     \<lparr>x = 3602879701896397 / 36028797018963968, y = 0,
      w = 3602879701896397 / 18014398509481984, h = 10\<rparr>
     \<lparr>x = 1351079888211149 / 4503599627370496, y = 0, w = 10, h = 10\<rparr>
   \<and> rectIntersect \<lparr>x = 0, y = 0, w = 10, h = 10\<rparr> \<lparr>x = 5, y = 5, w = 10, h = 10\<rparr>"
proof -
  let ?a = "\<lparr>x = 3602879701896397 / 36028797018963968, y = 0,
      w = 3602879701896397 / 18014398509481984, h = 10\<rparr>"
  let ?b = "\<lparr>x = 1351079888211149 / 4503599627370496, y = 0, w = 10, h = (10::rat)\<rparr>"
  let ?c = "\<lparr>x = 0, y = 0, w = 10, h = (10::rat)\<rparr>"
  let ?d = "\<lparr>x = 5, y = 5, w = 10, h = (10::rat)\<rparr>"
  have z: "is_f64 0" "is_f64 5" by (simp_all add: is_f64_def)
  have 1: "rectIntersect ?a ?b"
    using rectIntersect_touching_and_overlap [of ?a ?b] f64_tenth f64_tenth_plus_two_tenths z
    by simp
  have 2: "rectIntersect ?c ?d"
    using rectIntersect_touching_and_overlap [of ?c ?d] z by simp
  from 1 2 show ?thesis by simp
qed

text \<open>
  C3 as stated fails: the rectangles \<open>(0, 0, 10, 10)\<close> and \<open>(10, 0, 10, 10)\<close> share only
  the edge \<open>x = 10\<close>, and the test returns true.
\<close>

theorem rectIntersect_touching_counterexample:
  "rectIntersect \<lparr>x = 0, y = 0, w = 10, h = 10\<rparr> \<lparr>x = 10, y = 0, w = 10, h = 10\<rparr>"
  by (simp add: rectIntersect_def f64_add_def)

section \<open>Taking damage\<close>

text \<open>
  C4. For every actor and every call \<^verbatim>\<open>takeDamage(amount, knockbackX)\<close>: with the
  invincibility counter above 0 the call returns false and leaves the actor as it was;
  otherwise it returns true, subtracts the amount from the health, sets \<open>vx\<close> to the
  knockback, \<open>vy\<close> to \<open>-3\<close> and the invincibility to 30, and sets the dead flag exactly
  when the resulting health is at most 0 (a flag already set stays set). The override
  \<^verbatim>\<open>Zombie.takeDamage\<close> does the same and, on success, sets the state to \<^verbatim>\<open>'hurt'\<close>.
\<close>

theorem takeDamage_contract:
  "(invincible e > 0 \<longrightarrow> Entity_takeDamage e amount knockbackX = (False, e))
   \<and> (\<not> invincible e > 0 \<longrightarrow>
        Entity_takeDamage e amount knockbackX =
          (True, e\<lparr>health := health e - amount, vx := knockbackX, vy := - 3,
                   invincible := 30, dead := (dead e \<or> health e - amount \<le> 0)\<rparr>))
   \<and> (invincible z > 0 \<longrightarrow> Zombie_takeDamage z amount knockbackX = (False, z))
   \<and> (\<not> invincible z > 0 \<longrightarrow>
        Zombie_takeDamage z amount knockbackX =
          (True, z\<lparr>health := health z - amount, vx := knockbackX, vy := - 3,
                   invincible := 30, dead := (dead z \<or> health z - amount \<le> 0),
                   Entity.state := ''hurt''\<rparr>))"
  by (auto simp: Entity_takeDamage_def Zombie_takeDamage_def INVINCIBILITY_DURATION_def Let_def)


theorem takeDamage_contract_witness:
  "Entity_takeDamage ((new_Player 100 330)\<lparr>invincible := 5\<rparr>) 10 3
     = (False, (new_Player 100 330)\<lparr>invincible := 5\<rparr>)
   \<and> fst (Entity_takeDamage (new_Player 100 330) 10 3)
   \<and> health (snd (Entity_takeDamage (new_Player 100 330) 10 3)) = 90
   \<and> \<not> dead (snd (Entity_takeDamage (new_Player 100 330) 10 3))
   \<and> dead (snd (Entity_takeDamage (new_Player 100 330) 100 3))
   \<and> Zombie_takeDamage ((new_Zombie 0 330 ''basic'')\<lparr>invincible := 5\<rparr>) 10 3
     = (False, (new_Zombie 0 330 ''basic'')\<lparr>invincible := 5\<rparr>)
   \<and> health (snd (Zombie_takeDamage (new_Zombie 0 330 ''basic'') 10 3)) = 20
   \<and> Entity.state (snd (Zombie_takeDamage (new_Zombie 0 330 ''basic'') 10 3)) = ''hurt''"
  using takeDamage_contract [of "(new_Player 100 330)\<lparr>invincible := 5\<rparr>" 10 3
          "(new_Zombie 0 330 ''basic'')\<lparr>invincible := 5\<rparr>"]
        takeDamage_contract [of "new_Player 100 330" 10 3 "new_Zombie 0 330 ''basic''"]
        takeDamage_contract [of "new_Player 100 330" 100 3 "new_Zombie 0 330 ''basic''"]
  by (simp add: new_Player_def new_Zombie_def setupType_def)




text \<open>
  The game itself never makes such a call on an enemy: an enemy that is dead has its
  counter above 0, since the killing hit sets it to 30 and \<^verbatim>\<open>update\<close> leaves a dead enemy
  as it is.
\<close>

lemma physics_dead [simp]:
  "dead (Zombie_updateAnimation (updatePhysics z)) = dead z"
  by (simp add: Zombie_updateAnimation_def updatePhysics_def Let_def)

lemma Zombie_update_dead [simp]: "dead (fst (Zombie_update z g)) = dead z"
  by (simp add: Zombie_update_def Let_def Zombie_attack_fst rangedAttack_fst split_beta)

lemma dead_enemy_is_invincible:
  assumes "dead z \<longrightarrow> invincible z > 0"
  shows "dead (snd (Zombie_takeDamage z amount knockbackX))
           \<longrightarrow> invincible (snd (Zombie_takeDamage z amount knockbackX)) > 0"
    and "dead (fst (Zombie_update z g)) \<longrightarrow> invincible (fst (Zombie_update z g)) > 0"
proof -
  show "dead (snd (Zombie_takeDamage z amount knockbackX))
           \<longrightarrow> invincible (snd (Zombie_takeDamage z amount knockbackX)) > 0"
    using assms
    by (simp add: Zombie_takeDamage_def Entity_takeDamage_def INVINCIBILITY_DURATION_def Let_def)
  show "dead (fst (Zombie_update z g)) \<longrightarrow> invincible (fst (Zombie_update z g)) > 0"
  proof (cases "dead z")
    case True
    then show ?thesis using assms by (simp add: Zombie_update_def)
  next
    case False
    then show ?thesis by simp
  qed
qed

section \<open>The ranged zombie\<close>

text \<open>
  C2. The claim is that a ranged zombie closer to the player than its attack range,
  with its cooldown elapsed, fires a projectile. The code never does: inside the attack
  range with the cooldown elapsed the melee branch runs \<^verbatim>\<open>attack()\<close>, which sets the
  cooldown to 60, so the test \<^verbatim>\<open>attackCooldown <= 0\<close> of the ranged block fails; in every
  other branch the distance or the cooldown fails it. For every zombie whose attack
  range is not wider than its detection range (the constructor sets 40 and 200), an
  update leaves \<^verbatim>\<open>game.projectiles\<close> as it was.
\<close>

theorem ranged_attack_never_fires:
  assumes range: "attackRange z \<le> detectRange z"
  shows "projectiles (snd (Zombie_update z g)) = projectiles g"
proof (cases "dead z")
  case True
  then show ?thesis by (simp add: Zombie_update_def)
next
  case False
  define z1 where "z1 = (if attackCooldown z > 0 then z\<lparr>attackCooldown := attackCooldown z - 1\<rparr> else z)"
  define d where "d = \<bar>x (player g) - x z1\<bar>"
  have range1: "attackRange z1 \<le> detectRange z1" using range by (simp add: z1_def)
  consider (walk) "d < detectRange z1" "d > attackRange z1"
    | (attack) "d < detectRange z1" "\<not> d > attackRange z1" "attackCooldown z1 \<le> 0"
    | (wait) "d < detectRange z1" "\<not> d > attackRange z1" "\<not> attackCooldown z1 \<le> 0"
    | (far) "\<not> d < detectRange z1"
    by blast
  then show ?thesis
  proof cases
    case walk
    then show ?thesis using False
      by (simp add: Zombie_update_def Let_def z1_def [symmetric] d_def [symmetric])
  next
    case attack
    then show ?thesis using False
      by (simp add: Zombie_update_def Let_def z1_def [symmetric] d_def [symmetric]
          split: prod.splits)
        (metis Zombie_attack_cooldown Zombie_attack_projectiles fst_conv snd_conv
          zero_less_numeral not_less)
  next
    case wait
    then show ?thesis using False
      by (simp add: Zombie_update_def Let_def z1_def [symmetric] d_def [symmetric])
  next
    case far
    then show ?thesis using False range1
      by (simp add: Zombie_update_def Let_def z1_def [symmetric] d_def [symmetric])
  qed
qed


theorem ranged_attack_never_fires_witness:
  "type ((new_Zombie 200 330 ''ranged'')\<lparr>attackRange := 150\<rparr>) = ''ranged''
   \<and> \<bar>x (player (new_Game (\<lambda>n. 1 / 2))) - x ((new_Zombie 200 330 ''ranged'')\<lparr>attackRange := 150\<rparr>)\<bar>
       < attackRange ((new_Zombie 200 330 ''ranged'')\<lparr>attackRange := 150\<rparr>)
   \<and> attackCooldown ((new_Zombie 200 330 ''ranged'')\<lparr>attackRange := 150\<rparr>) \<le> 0
   \<and> projectiles (snd (Zombie_update ((new_Zombie 200 330 ''ranged'')\<lparr>attackRange := 150\<rparr>)
                           (new_Game (\<lambda>n. 1 / 2)))) = []
   \<and> type (new_Zombie 120 330 ''ranged'') = ''ranged''
   \<and> \<bar>x (player (new_Game (\<lambda>n. 1 / 2))) - x (new_Zombie 120 330 ''ranged'')\<bar>
       < attackRange (new_Zombie 120 330 ''ranged'')
   \<and> attackCooldown (new_Zombie 120 330 ''ranged'') \<le> 0
   \<and> projectiles (snd (Zombie_update (new_Zombie 120 330 ''ranged'')
                           (new_Game (\<lambda>n. 1 / 2)))) = []"
  using ranged_attack_never_fires [of "(new_Zombie 200 330 ''ranged'')\<lparr>attackRange := 150\<rparr>"
          "new_Game (\<lambda>n. 1 / 2)"]
        ranged_attack_never_fires [of "new_Zombie 120 330 ''ranged''" "new_Game (\<lambda>n. 1 / 2)"]
  by (simp add: new_Zombie_def setupType_def new_Game_def new_Player_def)

text \<open>
  The constructor assigns \<^verbatim>\<open>attackRange = 40\<close> after \<^verbatim>\<open>setupType()\<close> has set the 150 of the
  ranged type, so a ranged zombie starts with the range 40.
\<close>

lemma ranged_zombie_attackRange: "attackRange (new_Zombie px py ''ranged'') = 40"
  by (simp add: new_Zombie_def setupType_def)

section \<open>Mitigation by blocking\<close>



section \<open>The boss\<close>

text \<open>
  C6. For every boss that is alive: an update that finds it in phase 1 with
  \<open>health / maxHealth < 0.5\<close> is the update of the same boss put in phase 2 with speed 1
  and the attack cooldown reset to 0, and ends in phase 2 with speed 1; an update that
  finds it in phase 1 with the ratio not below 0.5 (151 of 300) ends in phase 1. From
  phase 2 on, whatever sequence of updates and hits follows, the phase is 2.
\<close>

theorem boss_phase_transition:
  "(\<not> dead b \<and> phase b = 1 \<and> maxHealth b \<noteq> 0 \<and> health b / maxHealth b < 1 / 2 \<longrightarrow>
      Boss_update b g = Boss_update (b\<lparr>phase := 2, speed := 1, attackCooldown := 0\<rparr>) g
      \<and> phase (fst (Boss_update b g)) = 2 \<and> speed (fst (Boss_update b g)) = 1)
   \<and> (phase b = 1 \<and> maxHealth b \<noteq> 0 \<and> \<not> health b / maxHealth b < 1 / 2 \<longrightarrow>
        phase (fst (Boss_update b g)) = 1)
   \<and> (phase b = 2 \<longrightarrow> phase (Boss_life b evs) = 2)"
proof (intro conjI impI)
  assume a: "\<not> dead b \<and> phase b = 1 \<and> maxHealth b \<noteq> 0 \<and> health b / maxHealth b < 1 / 2"
  then have pt: "Boss_phaseTransition b
      = Boss_phaseTransition (b\<lparr>phase := 2, speed := 1, attackCooldown := 0\<rparr>)"
    by (simp add: Boss_phaseTransition_def Let_def)
  with a show "Boss_update b g = Boss_update (b\<lparr>phase := 2, speed := 1, attackCooldown := 0\<rparr>) g"
    by (simp add: Boss_update_def)
  from a show "phase (fst (Boss_update b g)) = 2"
    by (simp add: Boss_update_def split_beta Boss_phaseTransition_def Let_def)
  from a show "speed (fst (Boss_update b g)) = 1"
    by (simp add: Boss_update_def split_beta Boss_phaseTransition_def Let_def)
next
  assume "phase b = 1 \<and> maxHealth b \<noteq> 0 \<and> \<not> health b / maxHealth b < 1 / 2"
  then show "phase (fst (Boss_update b g)) = 1"
    by (simp add: Boss_update_def split_beta Boss_phaseTransition_def Let_def)
next
  assume "phase b = 2"
  then show "phase (Boss_life b evs) = 2" by (rule Boss_life_phase2)
qed


theorem boss_phase_transition_witness:
  "phase (fst (Boss_update ((new_Boss 600 300)\<lparr>health := 151\<rparr>) (game_with (new_Player 100 330)))) = 1
   \<and> phase (fst (Boss_update ((new_Boss 600 300)\<lparr>health := 149\<rparr>) (game_with (new_Player 100 330)))) = 2
   \<and> speed (fst (Boss_update ((new_Boss 600 300)\<lparr>health := 149\<rparr>) (game_with (new_Player 100 330)))) = 1
   \<and> phase (Boss_life ((new_Boss 600 300)\<lparr>health := 149, phase := 2\<rparr>)
              [Hit 40 12, Tick (game_with (new_Player 100 330))]) = 2"
proof -
  let ?g = "game_with (new_Player 100 330)"
  let ?b151 = "(new_Boss 600 300)\<lparr>health := 151\<rparr>"
  let ?b149 = "(new_Boss 600 300)\<lparr>health := 149\<rparr>"
  let ?b2 = "(new_Boss 600 300)\<lparr>health := 149, phase := 2\<rparr>"
  have h1: "phase ?b151 = 1 \<and> maxHealth ?b151 \<noteq> 0 \<and> \<not> health ?b151 / maxHealth ?b151 < 1 / 2"
    by (simp add: new_Boss_def new_Zombie_def setupType_def Zombie.defs Boss.defs)
  have h2: "\<not> dead ?b149 \<and> phase ?b149 = 1 \<and> maxHealth ?b149 \<noteq> 0
      \<and> health ?b149 / maxHealth ?b149 < 1 / 2"
    by (simp add: new_Boss_def new_Zombie_def setupType_def Zombie.defs Boss.defs)
  have h3: "phase ?b2 = 2" by simp
  from h1 boss_phase_transition [of ?b151 ?g "[]"]
  have c1: "phase (fst (Boss_update ?b151 ?g)) = 1" by blast
  from h2 boss_phase_transition [of ?b149 ?g "[]"]
  have c2: "phase (fst (Boss_update ?b149 ?g)) = 2 \<and> speed (fst (Boss_update ?b149 ?g)) = 1"
    by blast
  from h3 boss_phase_transition [of ?b2 ?g "[Hit 40 12, Tick ?g]"]
  have c3: "phase (Boss_life ?b2 [Hit 40 12, Tick ?g]) = 2" by blast
  from c1 c2 c3 show ?thesis by blast
qed




text \<open>
  In phase 2 the smash pushes two basic zombies to the array the enemy pass is
  filtering. The pass then assigns its result to \<^verbatim>\<open>this.enemies\<close>, so it never hands on
  more enemies than it found.
\<close>

lemma enemies_filter_length: "length (fst (enemies_filter es g)) \<le> length es"
  by (induction es arbitrary: g) (simp_all add: split_beta le_SucI)

lemma updateEnemies_never_adds: "length (enemies (updateEnemies g)) \<le> length (enemies g)"
  by (simp add: updateEnemies_def split_beta enemies_filter_length)

section \<open>The portal\<close>

text \<open>
  C1. The claim is that the portal opens once the quota is spawned, the field is clear
  and the required boss, if any, has been defeated. On a level whose index is a multiple
  of 3 the code never opens it: the portal block requires \<^verbatim>\<open>!this.bossSpawned\<close>, and the
  boss block, which runs just before it, has set \<^verbatim>\<open>bossSpawned\<close> as soon as the quota was
  spawned and the field clear. On such a level a tick that starts without a portal ends
  without one, whatever the rest of the state is.
\<close>

theorem portal_never_opens_on_boss_level:
  assumes "level g mod 3 = 0" and "portal g = None"
  shows "portal (Game_update g) = None"
proof (cases "Game.state g = ''playing''")
  case False
  then show ?thesis using assms by (simp add: Game_update_def)
next
  case True
  define g5 where "g5 = spawnEnemies (updateCamera (Player_update
      (input (screenShakeDecay (g\<lparr>elapsedTime := (date_now g - startTime g) / 1000\<rparr>)))
      (screenShakeDecay (g\<lparr>elapsedTime := (date_now g - startTime g) / 1000\<rparr>))))"
  have l5: "level g5 mod 3 = 0" and p5: "portal g5 = None"
    using assms by (simp_all add: g5_def)
  have p7: "portal (activatePortal (spawnBossStep g5)) = None"
    using boss_gate_blocks_portal [OF l5] p5 by simp
  have "Game_update g = checkGameOver (updateParticles (updateProjectiles (updateEnemies
      (updatePortal (activatePortal (spawnBossStep g5))))))"
    using True by (simp add: Game_update_def Let_def g5_def)
  then show ?thesis using p7 by (simp add: updatePortal_None)
qed

theorem portal_never_opens_on_boss_level_witness:
  "enemiesSpawned after_boss \<ge> enemiesToSpawn after_boss \<and> enemies after_boss = []
   \<and> bossSpawned after_boss \<and> level after_boss mod 3 = 0 \<and> portal after_boss = None
   \<and> Game.state after_boss = ''playing''
   \<and> portal (Game_update after_boss) = None"
  using portal_never_opens_on_boss_level [of after_boss]
  by (simp add: after_boss_def game_with_def new_Game_def)

text \<open>
  On a level that needs no boss the two blocks do what the claim says: with the quota
  spawned and no enemy left they create the portal at \<open>(3000 - 150, 380 - 80)\<close> and emit
  the cue \<^verbatim>\<open>'portal'\<close>.
\<close>

lemma portal_opens_without_boss:
  assumes "level g mod 3 \<noteq> 0" and "enemiesSpawned g \<ge> enemiesToSpawn g" and "enemies g = []"
    and "portal g = None" and "\<not> bossSpawned g"
  shows "portal (activatePortal (spawnBossStep g)) = Some \<lparr>x = 2850, y = 300, w = 60, h = 80, active = False, pulse = 0\<rparr>"
    and "cues (activatePortal (spawnBossStep g)) = cues g @ [''portal'']"
  using assms
  by (simp_all add: activatePortal_def spawnBossStep_def new_Portal_def playSound_def
      LEVEL_LENGTH_def GROUND_Y_def)

section \<open>The player's energy\<close>

text \<open>
  Rounding on the binade of 64: there a binary64 value is a multiple of \<open>2^-46\<close>, the
  literal \<^verbatim>\<open>0.2\<close> is \<open>3602879701896397 / 2^54\<close>, and adding it to a value of the grid
  moves \<open>14073748835533\<close> grid points up, a little more than a fifth.
\<close>

lemma expo_up_eq: "2 ^ k \<le> a \<Longrightarrow> a < 2 ^ Suc k \<Longrightarrow> expo_up a = int k"
proof (induction k arbitrary: a)
  case 0
  then show ?case by (subst expo_up.simps) simp
next
  case (Suc k)
  have one: "(1::rat) \<le> 2 ^ k" by (rule one_le_power) simp
  have "2 * (2::rat) ^ k \<le> a" using Suc.prems(1) by simp
  with one have "2 \<le> a" by linarith
  moreover have "expo_up (a / 2) = int k"
    using Suc.prems by (intro Suc.IH) simp_all
  ultimately show ?case by (subst expo_up.simps) simp
qed

lemma binade_6: "64 \<le> a \<Longrightarrow> a < 128 \<Longrightarrow> binade a = 6"
  using expo_up_eq [of 6 a] by (simp add: binade_def)

lemma f64_binade_6:
  assumes "64 \<le> q" and "q < 128"
  shows "f64 q = of_int (round_half_even (q * 2 ^ 46)) / 2 ^ 46"
proof -
  have s: "binade \<bar>q\<bar> - 52 = - 46" using assms by (simp add: binade_6)
  have p: "pow2 (- 46) = 1 / 2 ^ 46" by (simp add: pow2_def)
  have "f64 q = (if q = 0 then 0
      else sgn q * of_int (round_half_even (\<bar>q\<bar> / pow2 (- 46))) * pow2 (- 46))"
    unfolding f64_def Let_def s ..
  also have "\<dots> = of_int (round_half_even (q * 2 ^ 46)) / 2 ^ 46"
    using assms unfolding p by simp
  finally show ?thesis .
qed

lemma f64_fifth: "f64 (1 / 5) = 3602879701896397 / 18014398509481984"
proof -
  have e: "expo_down (1 / 5) = - 3"
    by (subst expo_down.simps, simp)+
  have fl: "\<lfloor>(36028797018963968::rat) / 5\<rfloor> = 7205759403792793"
    by (rule floor_unique) simp_all
  have r: "round_half_even (36028797018963968 / 5) = 7205759403792794"
    unfolding round_half_even_def Let_def fl by simp
  show ?thesis
    by (simp add: f64_def binade_def e pow2_def Let_def r)
qed

lemma f64_70: "f64 70 = 70"
proof -
  have "round_half_even (70 * 2 ^ 46) = 70 * 2 ^ 46"
    by (simp add: round_half_even_def Let_def)
  then show ?thesis by (simp add: f64_binade_6)
qed

lemma round_half_even_up:
  assumes "1 / 2 < r" and "r < 1"
  shows "round_half_even (of_int z + r) = z + 1"
proof -
  have fl: "\<lfloor>of_int z + r\<rfloor> = z"
    by (rule floor_unique) (use assms in simp_all)
  show ?thesis
    unfolding round_half_even_def Let_def fl using assms by simp
qed

text \<open>One regeneration step on the grid of the binade of 64.\<close>

lemma regen_step:
  assumes grid: "e = of_int k / 2 ^ 46" and lo: "64 \<le> e" and hi: "e < 100"
  shows "f64_add e (f64 (1 / 5)) = of_int (k + 14073748835533) / 2 ^ 46"
proof -
  let ?q = "e + 3602879701896397 / 18014398509481984"
  have q: "64 \<le> ?q" "?q < 128" using lo hi by simp_all
  have m: "?q * 2 ^ 46 = of_int (k + 14073748835532) + 205 / 256"
    by (simp add: grid field_simps)
  have "round_half_even (?q * 2 ^ 46) = k + 14073748835532 + 1"
    unfolding m by (rule round_half_even_up) simp_all
  then have "round_half_even (?q * 2 ^ 46) = k + 14073748835533" by simp
  then show ?thesis
    unfolding f64_add_def f64_fifth by (simp only: f64_binade_6 [OF q])
qed

text \<open>What a tick does to the energy when no button is pressed.\<close>

lemma special_energy [simp]:
  "energy (player (special g)) = f64_sub (energy (player g)) 30"
  "maxEnergy (player (special g)) = maxEnergy (player g)"
  by (simp_all add: special_def Let_def)

lemma physics_energy [simp]:
  "energy (Player_updateAnimation (updatePhysics (p::Player))) = energy p"
  "maxEnergy (Player_updateAnimation (updatePhysics (p::Player))) = maxEnergy p"
  "energy (updatePhysics (p::Player)) = energy p"
  "maxEnergy (updatePhysics (p::Player)) = maxEnergy p"
  by (simp_all add: Player_updateAnimation_def updatePhysics_def Let_def)

lemma timers_energy [simp]:
  "energy (Player_timers p) = energy p" "maxEnergy (Player_timers p) = maxEnergy p"
  by (simp_all add: Player_timers_def Let_def)

lemma regen_maxEnergy [simp]: "maxEnergy (Player_regen p) = maxEnergy p"
  by (simp add: Player_regen_def)

lemma regen_timers [simp]: "energy (Player_regen (Player_timers p)) = energy (Player_regen p)"
  by (simp add: Player_regen_def)

lemma idle_energy:
  "energy (player (Player_update idle_input g)) = energy (Player_regen (player g))"
  "maxEnergy (player (Player_update idle_input g)) = maxEnergy (player g)"
  by (simp_all add: Player_update_def Player_movement_def Player_jump_def Player_dash_def
      Player_attacks_def isPressed_def idle_input_def getJoystickX_def Let_def)

lemma idle_run:
  assumes "maxEnergy (player g) = 100" and "energy (player g) = 70" and "n \<le> 150"
  shows "energy (player ((Player_update idle_input ^^ n) g))
           = of_int (4925812092436480 + int n * 14073748835533) / 2 ^ 46
         \<and> maxEnergy (player ((Player_update idle_input ^^ n) g)) = 100"
  using assms(3)
proof (induction n)
  case 0
  show ?case using assms(1,2) by simp
next
  case (Suc n)
  let ?g = "(Player_update idle_input ^^ n) g"
  let ?k = "4925812092436480 + int n * 14073748835533"
  from Suc have e: "energy (player ?g) = of_int ?k / 2 ^ 46"
    and m: "maxEnergy (player ?g) = 100" by simp_all
  have n: "int n \<le> 149" using Suc.prems by simp
  have lo: "4503599627370496 \<le> ?k" by simp
  have hi: "?k < 7036874417766400" using n by simp
  have lo': "(64::rat) \<le> of_int ?k / 2 ^ 46"
  proof -
    have "(of_int 4503599627370496 :: rat) \<le> of_int ?k" using lo by (simp only: of_int_le_iff)
    then show ?thesis by (simp add: pos_le_divide_eq)
  qed
  have hi': "of_int ?k / 2 ^ 46 < (100::rat)"
  proof -
    have "(of_int ?k :: rat) < of_int 7036874417766400" using hi by (simp only: of_int_less_iff)
    then show ?thesis by (simp add: pos_divide_less_eq)
  qed
  have "energy (player (Player_update idle_input ?g))
      = f64_add (of_int ?k / 2 ^ 46) (f64 (1 / 5))"
    using hi' by (simp add: idle_energy Player_regen_def e m)
  also have "\<dots> = of_int (?k + 14073748835533) / 2 ^ 46"
    by (rule regen_step [OF refl lo' hi'])
  also have "?k + 14073748835533 = 4925812092436480 + int (Suc n) * 14073748835533"
    by (simp add: algebra_simps)
  finally show ?case by (simp add: idle_energy m)
qed

text \<open>
  C9. The claim is that the energy stays within \<open>[0, maxEnergy]\<close> in every reachable
  state. The regeneration is guarded by \<^verbatim>\<open>energy < maxEnergy\<close> but not clamped, unlike
  the refund of \<^verbatim>\<open>addCombo\<close>. A new player who uses the special attack once has energy
  70; after 150 more ticks with no button pressed the energy is
  \<open>3518437208883215 / 2^45\<close>, that is \<open>100.00000000000043\<close>, above \<open>maxEnergy = 100\<close>.
\<close>

theorem energy_overshoots_maxEnergy:
  "energy (player (Player_update (press ''special'') (game_with (new_Player 100 330)))) = 70
   \<and> energy (player ((Player_update idle_input ^^ 150)
               (Player_update (press ''special'') (game_with (new_Player 100 330)))))
       = 3518437208883215 / 35184372088832
   \<and> maxEnergy (player ((Player_update idle_input ^^ 150)
               (Player_update (press ''special'') (game_with (new_Player 100 330))))) = 100
   \<and> maxEnergy (player ((Player_update idle_input ^^ 150)
               (Player_update (press ''special'') (game_with (new_Player 100 330)))))
       < energy (player ((Player_update idle_input ^^ 150)
               (Player_update (press ''special'') (game_with (new_Player 100 330)))))"
proof -
  let ?g1 = "Player_update (press ''special'') (game_with (new_Player 100 330))"
  have s: "energy (player ?g1) = 70" "maxEnergy (player ?g1) = 100"
    by (simp_all add: Player_update_def Player_movement_def Player_jump_def Player_dash_def
        Player_attacks_def Player_timers_def Player_regen_def isPressed_def press_def
        getJoystickX_def game_with_def new_Game_def new_Player_def f64_sub_def f64_70 Let_def)
  from idle_run [OF s(2) s(1), of 150]
  have r: "energy (player ((Player_update idle_input ^^ 150) ?g1))
             = 3518437208883215 / 35184372088832"
    and m: "maxEnergy (player ((Player_update idle_input ^^ 150) ?g1)) = 100"
    by simp_all
  show ?thesis unfolding r m using s(1) by simp
qed

end
